theory Spec2Isabelle
  imports Main
begin

section \<open>The syntax tree\<close>

text \<open>
  The program (\<^verbatim>\<open>node_new.js\<close>) parses a JavaScript file with \<^verbatim>\<open>@babel/parser\<close>,
  decorates the tree with TypeScript annotations and prints it again.  The tree is the
  parser's: every node carries a \<^verbatim>\<open>type\<close> tag, and the tests \<^verbatim>\<open>t.isNumericLiteral\<close>,
  \<^verbatim>\<open>t.isBlockStatement\<close>, ... compare that tag.  A node kind is a constructor here, and
  a test on the tag is a pattern match.

  Only the node kinds the annotator distinguishes, and those that carry further nodes
  below them, are spelled out.  The value of a literal is never read, so a numeric
  literal carries an integer in place of the parser's double.
\<close>

datatype tsType =
    TSNumberKeyword
  | TSStringKeyword
  | TSBooleanKeyword
  | TSNullKeyword
  | TSUndefinedKeyword
  | TSAnyKeyword
  | TSVoidKeyword
  | TSTypeReference string
  | TSArrayType tsType

text \<open>
  An annotation slot is the property \<^verbatim>\<open>typeAnnotation\<close> of a binding or \<^verbatim>\<open>returnType\<close>
  of a function: \<^verbatim>\<open>null\<close> (\<open>None\<close>) or \<^verbatim>\<open>t.tsTypeAnnotation(ty)\<close> (\<open>Some ty\<close>).  The
  second component is ghost state: it counts the assignments the annotator has made to
  the slot, so that "set once" can be stated.  The program never reads it.
\<close>

datatype slot = Slot (annotation: "tsType option") (assignments: nat)

datatype expression =
    NumericLiteral int
  | StringLiteral string
  | BooleanLiteral bool
  | NullLiteral
  | Identifier string
  | ArrayExpression "expression option list"
  | CallExpression expression "expression list"
  | ObjectExpression "property list"
  | TemplateLiteral "string list" "expression list"
  | BinaryExpression string expression expression
  | ArrowFunctionExpression "pattern list" slot arrow_body
  | FunctionExpression "string option" "pattern list" slot "statement list"
and property =
    ObjectProperty string expression
and arrow_body =
    ExpressionBody expression
  | BlockBody "statement list"
and pattern =
    IdentifierPattern string slot
  | AssignmentPattern pattern expression slot
  | RestElement pattern slot
  | ArrayPattern "pattern option list" slot
and statement =
    VariableDeclaration string "declarator list"
  | FunctionDeclaration string "pattern list" slot "statement list"
  | ReturnStatement "expression option"
  | ExpressionStatement expression
  | BlockStatement "statement list"
  | IfStatement expression statement "statement option"
and declarator =
    VariableDeclarator pattern "expression option"

type_synonym program = "statement list"

text \<open>
  \<open>IdentifierPattern\<close> is the parser's \<^verbatim>\<open>Identifier\<close> node in binding position (the
  \<^verbatim>\<open>id\<close> of a declarator, a parameter), where its \<^verbatim>\<open>typeAnnotation\<close> matters.
  The body of a function declaration or function expression is always a block, given
  here by the block's statement list (\<^verbatim>\<open>node.body.body\<close>); the body of an arrow function
  is a block or a single expression.
\<close>

section \<open>Values and errors of the host language\<close>

text \<open>
  The callback of \<^verbatim>\<open>deduceElementType\<close> returns a string on most paths and nothing at
  all on one, so its results are JavaScript values: a string or \<^verbatim>\<open>undefined\<close>.
\<close>

datatype js_value = JSString string | JSUndefined

text \<open>
  The exceptions of a run: the \<^verbatim>\<open>TypeError\<close> of a builder that rejects its argument, the
  \<^verbatim>\<open>SyntaxError\<close> of the parser, and the errors of the file system calls.  None of
  them is caught anywhere.
\<close>

datatype error = TypeError | SyntaxError | ENOENT | ENOTDIR | EISDIR

text \<open>
  \<^verbatim>\<open>new Set(xs)\<close> keeps the distinct values of \<open>xs\<close> in order of first insertion;
  \<^verbatim>\<open>.size\<close> is the length of that sequence and \<^verbatim>\<open>Array.from(s)[0]\<close> its head.
\<close>

definition set_add :: "'a list \<Rightarrow> 'a \<Rightarrow> 'a list" where
  "set_add s x = (if x \<in> set s then s else s @ [x])"

definition new_Set :: "'a list \<Rightarrow> 'a list" where
  "new_Set xs = foldl set_add [] xs"

text \<open>
  \<^verbatim>\<open>t.identifier(name)\<close> of \<^verbatim>\<open>@babel/types\<close> validates its argument: the field
  \<^verbatim>\<open>name\<close> of an \<^verbatim>\<open>Identifier\<close> is declared with \<^verbatim>\<open>assertValueType("string")\<close> and is
  not optional, so any other value raises a \<^verbatim>\<open>TypeError\<close>.  The result is the
  identifier's name.
\<close>

definition t_identifier :: "js_value \<Rightarrow> error + string" where
  "t_identifier name = (case name of JSString s \<Rightarrow> Inr s | JSUndefined \<Rightarrow> Inl TypeError)"

section \<open>The Expression Type Deducer\<close>

text \<open>
  The arrow function mapped over the elements in \<^verbatim>\<open>deduceElementType\<close>.  A hole of the
  array literal is \<^verbatim>\<open>null\<close> in the tree (\<open>None\<close>).  In the \<^verbatim>\<open>Identifier\<close> case the
  \<^verbatim>\<open>switch\<close> is left by \<^verbatim>\<open>break\<close> when the name is not \<^verbatim>\<open>undefined\<close>, and the
  callback ends without a \<^verbatim>\<open>return\<close>.
\<close>

fun element_tag :: "expression option \<Rightarrow> js_value" where
  "element_tag None = JSString ''null''"
| "element_tag (Some (NumericLiteral v)) = JSString ''number''"
| "element_tag (Some (StringLiteral v)) = JSString ''string''"
| "element_tag (Some (BooleanLiteral v)) = JSString ''boolean''"
| "element_tag (Some NullLiteral) = JSString ''null''"
| "element_tag (Some (Identifier name)) =
     (if name = ''undefined'' then JSString ''undefined'' else JSUndefined)"
| "element_tag (Some el) = JSString ''any''"

text \<open>
  \<^verbatim>\<open>deduceElementType\<close>.  Its only caller passes the \<^verbatim>\<open>elements\<close> of an array literal,
  which is always an array, so \<^verbatim>\<open>!elements\<close> is false and the first test is the one on
  the length.  The head of \<open>elementTypes\<close> is read only when its size is 1.
\<close>

definition deduceElementType :: "expression option list \<Rightarrow> js_value" where
  "deduceElementType elements =
     (if length elements = 0 then JSString ''any''
      else
        let elementTypes = new_Set (map element_tag elements) in
        if length elementTypes = 1 then hd elementTypes
        else JSString ''any'')"

text \<open>
  \<^verbatim>\<open>deduceExpressionType\<close>.  The argument may be \<^verbatim>\<open>null\<close>; every \<^verbatim>\<open>t.isX(null)\<close> is
  false, so \<^verbatim>\<open>null\<close> reaches the last line.
\<close>

fun deduceExpressionType :: "expression option \<Rightarrow> error + tsType" where
  "deduceExpressionType (Some (NumericLiteral v)) = Inr TSNumberKeyword"
| "deduceExpressionType (Some (StringLiteral v)) = Inr TSStringKeyword"
| "deduceExpressionType (Some (BooleanLiteral v)) = Inr TSBooleanKeyword"
| "deduceExpressionType (Some NullLiteral) = Inr TSNullKeyword"
| "deduceExpressionType (Some (Identifier name)) =
     (if name = ''undefined'' then Inr TSUndefinedKeyword else Inr TSAnyKeyword)"
| "deduceExpressionType (Some (ArrayExpression elements)) =
     (case t_identifier (deduceElementType elements) of
        Inl e \<Rightarrow> Inl e
      | Inr elementType \<Rightarrow> Inr (TSArrayType (TSTypeReference elementType)))"
| "deduceExpressionType expression = Inr TSAnyKeyword"

section \<open>The Annotator\<close>

subsection \<open>Assignments to annotation slots\<close>

text \<open>\<^verbatim>\<open>slot = t.tsTypeAnnotation(ty)\<close>: the slot holds \<open>ty\<close> and has been assigned once more.\<close>

fun assign :: "tsType \<Rightarrow> slot \<Rightarrow> slot" where
  "assign ty (Slot a n) = Slot (Some ty) (Suc n)"

text \<open>\<^verbatim>\<open>node.typeAnnotation\<close> of a binding node, read and assigned.\<close>

fun typeAnnotation :: "pattern \<Rightarrow> slot" where
  "typeAnnotation (IdentifierPattern name s) = s"
| "typeAnnotation (AssignmentPattern left right s) = s"
| "typeAnnotation (RestElement argument s) = s"
| "typeAnnotation (ArrayPattern elements s) = s"

fun set_typeAnnotation :: "tsType \<Rightarrow> pattern \<Rightarrow> pattern" where
  "set_typeAnnotation ty (IdentifierPattern name s) = IdentifierPattern name (assign ty s)"
| "set_typeAnnotation ty (AssignmentPattern left right s) =
     AssignmentPattern left right (assign ty s)"
| "set_typeAnnotation ty (RestElement argument s) = RestElement argument (assign ty s)"
| "set_typeAnnotation ty (ArrayPattern elements s) = ArrayPattern elements (assign ty s)"

subsection \<open>Exceptions\<close>

text \<open>
  Nothing in the program catches an exception: a call that raises ends the enclosing
  call with the same exception.  \<open>and_then m f\<close> is "\<open>m\<close>, and if it returned, \<open>f\<close> of
  its result"; \<open>mapM\<close> runs a function over a list from left to right.
\<close>

definition and_then :: "error + 'a \<Rightarrow> ('a \<Rightarrow> error + 'b) \<Rightarrow> error + 'b" where
  "and_then m f = (case m of Inl e \<Rightarrow> Inl e | Inr x \<Rightarrow> f x)"

fun mapM :: "('a \<Rightarrow> error + 'b) \<Rightarrow> 'a list \<Rightarrow> error + 'b list" where
  "mapM f [] = Inr []"
| "mapM f (x # xs) = and_then (f x) (\<lambda>y. and_then (mapM f xs) (\<lambda>ys. Inr (y # ys)))"

fun mapM_option :: "('a \<Rightarrow> error + 'b) \<Rightarrow> 'a option \<Rightarrow> error + 'b option" where
  "mapM_option f None = Inr None"
| "mapM_option f (Some x) = and_then (f x) (\<lambda>y. Inr (Some y))"

lemma and_then_cong [fundef_cong]:
  "m = m' \<Longrightarrow> (\<And>x. m' = Inr x \<Longrightarrow> f x = f' x) \<Longrightarrow> and_then m f = and_then m' f'"
  by (auto simp: and_then_def split: sum.splits)

lemma mapM_cong [fundef_cong]:
  "xs = ys \<Longrightarrow> (\<And>x. x \<in> set ys \<Longrightarrow> f x = g x) \<Longrightarrow> mapM f xs = mapM g ys"
  by (induction ys arbitrary: xs) (auto simp: and_then_def)

lemma mapM_option_cong [fundef_cong]:
  "x = y \<Longrightarrow> (\<And>v. y = Some v \<Longrightarrow> f v = g v) \<Longrightarrow> mapM_option f x = mapM_option g y"
  by (cases y) auto

subsection \<open>The three visitors\<close>

text \<open>
  The loop \<^verbatim>\<open>body.forEach(statement => { if (t.isReturnStatement(statement) &&
  statement.argument != null) returnType = deduceExpressionType(statement.argument) })\<close>
  with the variable \<^verbatim>\<open>returnType\<close> as an accumulator.
\<close>

fun scan_returns :: "tsType \<Rightarrow> statement list \<Rightarrow> error + tsType" where
  "scan_returns returnType [] = Inr returnType"
| "scan_returns returnType (ReturnStatement (Some argument) # rest) =
     and_then (deduceExpressionType (Some argument)) (\<lambda>ty. scan_returns ty rest)"
| "scan_returns returnType (statement # rest) = scan_returns returnType rest"

text \<open>
  A visitor receives the node it is called on, given here by the node's fields, and
  returns the new values of the fields it assigns: the \<^verbatim>\<open>id\<close> of a declarator, the
  \<^verbatim>\<open>params\<close> and \<^verbatim>\<open>returnType\<close> of a function.
\<close>

definition VariableDeclarator_visitor :: "pattern \<Rightarrow> expression option \<Rightarrow> error + pattern" where
  "VariableDeclarator_visitor lhs init =
     (if init \<noteq> None then
        and_then (deduceExpressionType init)
          (\<lambda>inferredType. Inr (set_typeAnnotation inferredType lhs))
      else Inr (set_typeAnnotation TSAnyKeyword lhs))"

definition FunctionDeclaration_visitor ::
  "pattern list \<Rightarrow> slot \<Rightarrow> statement list \<Rightarrow> error + pattern list \<times> slot" where
  "FunctionDeclaration_visitor params returnType body =
     (let params' = map (set_typeAnnotation TSAnyKeyword) params in
      if annotation returnType = None then
        and_then
          (if length body > 0 then scan_returns TSVoidKeyword body else Inr TSVoidKeyword)
          (\<lambda>ty. Inr (params', assign ty returnType))
      else Inr (params', returnType))"

definition ArrowFunctionExpression_visitor ::
  "pattern list \<Rightarrow> slot \<Rightarrow> arrow_body \<Rightarrow> error + pattern list \<times> slot" where
  "ArrowFunctionExpression_visitor params returnType body =
     (let params' = map (set_typeAnnotation TSAnyKeyword) params in
      if annotation returnType = None then
        and_then
          (case body of
             BlockBody statements \<Rightarrow> scan_returns TSVoidKeyword statements
           | ExpressionBody expression \<Rightarrow> deduceExpressionType (Some expression))
          (\<lambda>ty. Inr (params', assign ty returnType))
      else Inr (params', returnType))"

subsection \<open>The traversal\<close>

text \<open>
  \<^verbatim>\<open>babelTraverse(ast, visitors)\<close> walks the tree depth first.  On entering a node it
  calls the visitor registered for the node's kind, if any, and then walks the children
  of the node as the visitor left it, field by field in the order of the library's
  \<^verbatim>\<open>VISITOR_KEYS\<close>.  The three lemmas below are what its termination rests on: a
  visitor changes annotation slots only, which the size of a node does not count.
\<close>

lemma size_set_typeAnnotation [simp]: "size (set_typeAnnotation ty p) = size p"
  by (cases p) auto

lemma FunctionDeclaration_visitor_params:
  "FunctionDeclaration_visitor ps rt body = Inr (ps', rt') \<Longrightarrow>
   ps' = map (set_typeAnnotation TSAnyKeyword) ps"
  by (auto simp: FunctionDeclaration_visitor_def and_then_def Let_def
      split: if_splits sum.splits)

lemma ArrowFunctionExpression_visitor_params:
  "ArrowFunctionExpression_visitor ps rt body = Inr (ps', rt') \<Longrightarrow>
   ps' = map (set_typeAnnotation TSAnyKeyword) ps"
  by (auto simp: ArrowFunctionExpression_visitor_def and_then_def Let_def
      split: if_splits sum.splits)

lemma VariableDeclarator_visitor_size:
  "VariableDeclarator_visitor lhs init = Inr lhs' \<Longrightarrow> size lhs' = size lhs"
  by (auto simp: VariableDeclarator_visitor_def and_then_def split: if_splits sum.splits)

lemma size_list_member:
  "x \<in> set xs \<Longrightarrow> f x < Suc (size_list f xs)"
  "x \<in> set xs \<Longrightarrow> f x < Suc (size_list f xs + n)"
  "x \<in> set xs \<Longrightarrow> f x < Suc (n + size_list f xs)"
  by (induction xs) auto

lemma size_list_option_member:
  "Some v \<in> set xs \<Longrightarrow> f v < Suc (size_list (size_option f) xs)"
  using size_list_member(1) [of "Some v" xs "size_option f"] by simp

function traverse_expression :: "expression \<Rightarrow> error + expression"
  and traverse_property :: "property \<Rightarrow> error + property"
  and traverse_arrow_body :: "arrow_body \<Rightarrow> error + arrow_body"
  and traverse_pattern :: "pattern \<Rightarrow> error + pattern"
  and traverse_statement :: "statement \<Rightarrow> error + statement"
  and traverse_declarator :: "declarator \<Rightarrow> error + declarator"
where
  "traverse_expression (NumericLiteral v) = Inr (NumericLiteral v)"
| "traverse_expression (StringLiteral v) = Inr (StringLiteral v)"
| "traverse_expression (BooleanLiteral v) = Inr (BooleanLiteral v)"
| "traverse_expression NullLiteral = Inr NullLiteral"
| "traverse_expression (Identifier name) = Inr (Identifier name)"
| "traverse_expression (ArrayExpression elements) =
     and_then (mapM (mapM_option traverse_expression) elements) (\<lambda>elements'.
     Inr (ArrayExpression elements'))"
| "traverse_expression (CallExpression callee arguments) =
     and_then (traverse_expression callee) (\<lambda>callee'.
     and_then (mapM traverse_expression arguments) (\<lambda>arguments'.
     Inr (CallExpression callee' arguments')))"
| "traverse_expression (ObjectExpression properties) =
     and_then (mapM traverse_property properties) (\<lambda>properties'.
     Inr (ObjectExpression properties'))"
| "traverse_expression (TemplateLiteral quasis expressions) =
     and_then (mapM traverse_expression expressions) (\<lambda>expressions'.
     Inr (TemplateLiteral quasis expressions'))"
| "traverse_expression (BinaryExpression operator left right) =
     and_then (traverse_expression left) (\<lambda>left'.
     and_then (traverse_expression right) (\<lambda>right'.
     Inr (BinaryExpression operator left' right')))"
| "traverse_expression (ArrowFunctionExpression params returnType body) =
     and_then (ArrowFunctionExpression_visitor params returnType body) (\<lambda>(params', returnType').
     and_then (mapM traverse_pattern params') (\<lambda>params''.
     and_then (traverse_arrow_body body) (\<lambda>body'.
     Inr (ArrowFunctionExpression params'' returnType' body'))))"
| "traverse_expression (FunctionExpression name params returnType body) =
     and_then (mapM traverse_pattern params) (\<lambda>params'.
     and_then (mapM traverse_statement body) (\<lambda>body'.
     Inr (FunctionExpression name params' returnType body')))"
| "traverse_property (ObjectProperty key v) =
     and_then (traverse_expression v) (\<lambda>v'. Inr (ObjectProperty key v'))"
| "traverse_arrow_body (ExpressionBody expression) =
     and_then (traverse_expression expression) (\<lambda>expression'. Inr (ExpressionBody expression'))"
| "traverse_arrow_body (BlockBody statements) =
     and_then (mapM traverse_statement statements) (\<lambda>statements'. Inr (BlockBody statements'))"
| "traverse_pattern (IdentifierPattern name s) = Inr (IdentifierPattern name s)"
| "traverse_pattern (AssignmentPattern left right s) =
     and_then (traverse_pattern left) (\<lambda>left'.
     and_then (traverse_expression right) (\<lambda>right'.
     Inr (AssignmentPattern left' right' s)))"
| "traverse_pattern (RestElement argument s) =
     and_then (traverse_pattern argument) (\<lambda>argument'. Inr (RestElement argument' s))"
| "traverse_pattern (ArrayPattern elements s) =
     and_then (mapM (mapM_option traverse_pattern) elements) (\<lambda>elements'.
     Inr (ArrayPattern elements' s))"
| "traverse_statement (VariableDeclaration kind declarations) =
     and_then (mapM traverse_declarator declarations) (\<lambda>declarations'.
     Inr (VariableDeclaration kind declarations'))"
| "traverse_statement (FunctionDeclaration name params returnType body) =
     and_then (FunctionDeclaration_visitor params returnType body) (\<lambda>(params', returnType').
     and_then (mapM traverse_pattern params') (\<lambda>params''.
     and_then (mapM traverse_statement body) (\<lambda>body'.
     Inr (FunctionDeclaration name params'' returnType' body'))))"
| "traverse_statement (ReturnStatement argument) =
     and_then (mapM_option traverse_expression argument) (\<lambda>argument'.
     Inr (ReturnStatement argument'))"
| "traverse_statement (ExpressionStatement expression) =
     and_then (traverse_expression expression) (\<lambda>expression'.
     Inr (ExpressionStatement expression'))"
| "traverse_statement (BlockStatement body) =
     and_then (mapM traverse_statement body) (\<lambda>body'. Inr (BlockStatement body'))"
| "traverse_statement (IfStatement test consequent alternate) =
     and_then (traverse_expression test) (\<lambda>test'.
     and_then (traverse_statement consequent) (\<lambda>consequent'.
     and_then (mapM_option traverse_statement alternate) (\<lambda>alternate'.
     Inr (IfStatement test' consequent' alternate'))))"
| "traverse_declarator (VariableDeclarator lhs init) =
     and_then (VariableDeclarator_visitor lhs init) (\<lambda>lhs'.
     and_then (traverse_pattern lhs') (\<lambda>lhs''.
     and_then (mapM_option traverse_expression init) (\<lambda>init'.
     Inr (VariableDeclarator lhs'' init'))))"
  by pat_completeness auto
termination
  apply (relation "measure (\<lambda>x. case x of
      Inl (Inl e) \<Rightarrow> size e
    | Inl (Inr (Inl p)) \<Rightarrow> size p
    | Inl (Inr (Inr b)) \<Rightarrow> size b
    | Inr (Inl p) \<Rightarrow> size p
    | Inr (Inr (Inl s)) \<Rightarrow> size s
    | Inr (Inr (Inr d)) \<Rightarrow> size d)")
  apply (auto dest!: FunctionDeclaration_visitor_params ArrowFunctionExpression_visitor_params
      VariableDeclarator_visitor_size simp: size_list_member size_list_option_member)
  done

text \<open>\<^verbatim>\<open>addTypeAnnotations(ast)\<close>: the traversal of the statements of the program.\<close>

definition addTypeAnnotations :: "program \<Rightarrow> error + program" where
  "addTypeAnnotations ast = mapM traverse_statement ast"

section \<open>The directory pass\<close>

subsection \<open>The path library\<close>

text \<open>
  \<^verbatim>\<open>path.join\<close>, \<^verbatim>\<open>path.normalize\<close>, \<^verbatim>\<open>path.dirname\<close> and \<^verbatim>\<open>path.basename\<close> of Node's POSIX
  \<^verbatim>\<open>path\<close> module.  The program calls \<^verbatim>\<open>path.join\<close> only; the others serve the file
  system below.  A path is split at its separators; \<^verbatim>\<open>normalizeString\<close> drops empty
  segments and \<^verbatim>\<open>.\<close> and lets \<^verbatim>\<open>..\<close> remove the segment before it (or stay, at the start
  of a relative path), keeping the segments found so far in \<open>res\<close>, last one first.
\<close>

type_synonym path = string

fun split_path :: "string \<Rightarrow> string list" where
  "split_path [] = [[]]"
| "split_path (c # s) =
     (if c = CHR ''/'' then [] # split_path s
      else (case split_path s of
              [] \<Rightarrow> [[c]]
            | segment # segments \<Rightarrow> (c # segment) # segments))"

fun join_segments :: "string list \<Rightarrow> string" where
  "join_segments [] = []"
| "join_segments [segment] = segment"
| "join_segments (segment # segments) = segment @ ''/'' @ join_segments segments"

fun normalizeString :: "bool \<Rightarrow> string list \<Rightarrow> string list \<Rightarrow> string list" where
  "normalizeString allowAboveRoot res [] = rev res"
| "normalizeString allowAboveRoot res (segment # segments) =
     (if segment = [] \<or> segment = ''.'' then normalizeString allowAboveRoot res segments
      else if segment = ''..'' then
        (case res of
           [] \<Rightarrow>
             normalizeString allowAboveRoot (if allowAboveRoot then [''..''] else []) segments
         | lastSegment # below \<Rightarrow>
             if lastSegment = ''..''
             then normalizeString allowAboveRoot (if allowAboveRoot then ''..'' # res else res)
                    segments
             else normalizeString allowAboveRoot below segments)
      else normalizeString allowAboveRoot (segment # res) segments)"

definition normalize :: "path \<Rightarrow> path" where
  "normalize p =
     (if p = [] then ''.''
      else
        let isAbsolute = (hd p = CHR ''/'');
            trailingSeparator = (last p = CHR ''/'');
            normalized = join_segments (normalizeString (\<not> isAbsolute) [] (split_path p))
        in if normalized = [] then
             (if isAbsolute then ''/'' else if trailingSeparator then ''./'' else ''.'')
           else
             (let withSeparator = (if trailingSeparator then normalized @ ''/'' else normalized)
              in if isAbsolute then CHR ''/'' # withSeparator else withSeparator))"

definition path_join :: "path \<Rightarrow> string \<Rightarrow> path" where
  "path_join dirPath file =
     (if dirPath = [] \<and> file = [] then ''.''
      else if dirPath = [] then normalize file
      else if file = [] then normalize dirPath
      else normalize (dirPath @ ''/'' @ file))"

definition dirname :: "path \<Rightarrow> path" where
  "dirname p =
     (if p = [] then ''.''
      else
        let hasRoot = (hd p = CHR ''/'');
            upToName = dropWhile (\<lambda>c. c \<noteq> CHR ''/'')
                         (dropWhile (\<lambda>c. c = CHR ''/'') (rev (tl p)))
        in case upToName of
             [] \<Rightarrow> (if hasRoot then ''/'' else ''.'')
           | separator # parent \<Rightarrow>
               (if hasRoot \<and> parent = [] then ''//'' else hd p # rev parent))"

definition basename :: "path \<Rightarrow> string" where
  "basename p =
     rev (takeWhile (\<lambda>c. c \<noteq> CHR ''/'') (dropWhile (\<lambda>c. c = CHR ''/'') (rev p)))"

subsection \<open>The file system\<close>

text \<open>
  The calls of Node's \<^verbatim>\<open>fs\<close> module that the program makes, on a file system that is a
  table from paths to entries.  An entry is a regular file with its text or a directory;
  links and devices are left out.  The keys of the table are normalised paths without a
  trailing separator, absolute or relative to the working directory, which is the entry
  \<^verbatim>\<open>.\<close>; a path given to a call is resolved to its key by normalising it, so \<^verbatim>\<open>src\<close>,
  \<^verbatim>\<open>src/\<close> and \<^verbatim>\<open>./src\<close> name the same entry (a \<^verbatim>\<open>..\<close> segment is resolved as the
  system resolves it when the directory it steps out of exists and is not a link).  A
  table holds, with every entry, the directory the entry is in.  The state of a run is the
  file system together with the lines the program has printed: one
  \<^verbatim>\<open>jsFilePath => tsFilePath\<close> per converted file.
\<close>

datatype entry = RegularFile string | Directory

type_synonym filesystem = "(path \<times> entry) list"

record world =
  files :: filesystem
  console :: "(path \<times> path) list"

definition resolve :: "path \<Rightarrow> path" where
  "resolve p =
     (let normalized = normalize p
      in if length normalized > 1 \<and> last normalized = CHR ''/'' then butlast normalized
         else normalized)"

definition lookup :: "filesystem \<Rightarrow> path \<Rightarrow> error + entry" where
  "lookup fs p =
     (if p = [] then Inl ENOENT
      else case map_of fs (resolve p) of
             None \<Rightarrow> Inl ENOENT
           | Some Directory \<Rightarrow> Inr Directory
           | Some (RegularFile content) \<Rightarrow>
               if last p = CHR ''/'' then Inl ENOTDIR else Inr (RegularFile content))"

text \<open>
  \<^verbatim>\<open>readdirSync\<close> returns the names of the entries directly inside a directory, without
  \<^verbatim>\<open>.\<close> and \<^verbatim>\<open>..\<close>, sorted by their bytes.
\<close>

fun bytes_le :: "string \<Rightarrow> string \<Rightarrow> bool" where
  "bytes_le [] t = True"
| "bytes_le (c # s) [] = False"
| "bytes_le (c # s) (d # t) =
     ((of_char c :: nat) < of_char d \<or> (c = d \<and> bytes_le s t))"

fun insert_name :: "string \<Rightarrow> string list \<Rightarrow> string list" where
  "insert_name name [] = [name]"
| "insert_name name (n # names) =
     (if bytes_le name n then name # n # names else n # insert_name name names)"

fun sort_names :: "string list \<Rightarrow> string list" where
  "sort_names [] = []"
| "sort_names (name # names) = insert_name name (sort_names names)"

definition readdirSync :: "filesystem \<Rightarrow> path \<Rightarrow> error + string list" where
  "readdirSync fs dirPath =
     (case lookup fs dirPath of
        Inl e \<Rightarrow> Inl e
      | Inr (RegularFile content) \<Rightarrow> Inl ENOTDIR
      | Inr Directory \<Rightarrow>
          Inr (sort_names (remdups (map basename
            (filter (\<lambda>p. p \<noteq> resolve dirPath \<and> dirname p = resolve dirPath \<and>
                         basename p \<notin> {[], ''.'', ''..''})
               (map fst fs))))))"

text \<open>
  \<^verbatim>\<open>statSync(p).isFile()\<close> tells a regular file from a directory, \<^verbatim>\<open>readFileSync\<close> returns
  the text of a regular file, and \<^verbatim>\<open>writeFileSync\<close> replaces the text of an existing
  regular file or creates one in an existing directory.  Each raises where Node raises.
\<close>

definition statSync :: "filesystem \<Rightarrow> path \<Rightarrow> error + entry" where
  "statSync fs p = lookup fs p"

fun isFile :: "entry \<Rightarrow> bool" where
  "isFile (RegularFile content) = True"
| "isFile Directory = False"

definition readFileSync :: "filesystem \<Rightarrow> path \<Rightarrow> error + string" where
  "readFileSync fs p =
     (case lookup fs p of
        Inl e \<Rightarrow> Inl e
      | Inr Directory \<Rightarrow> Inl EISDIR
      | Inr (RegularFile content) \<Rightarrow> Inr content)"

fun write_entry :: "path \<Rightarrow> entry \<Rightarrow> filesystem \<Rightarrow> filesystem" where
  "write_entry p e [] = [(p, e)]"
| "write_entry p e ((k, v) # fs) =
     (if k = p then (k, e) # fs else (k, v) # write_entry p e fs)"

definition writeFileSync :: "filesystem \<Rightarrow> path \<Rightarrow> string \<Rightarrow> error + filesystem" where
  "writeFileSync fs p content =
     (if p = [] then Inl ENOENT
      else case map_of fs (resolve p) of
             Some Directory \<Rightarrow> Inl EISDIR
           | Some (RegularFile old) \<Rightarrow>
               if last p = CHR ''/'' then Inl ENOTDIR
               else Inr (write_entry (resolve p) (RegularFile content) fs)
           | None \<Rightarrow>
               (case map_of fs (dirname (resolve p)) of
                  None \<Rightarrow> Inl ENOENT
                | Some (RegularFile c) \<Rightarrow> Inl ENOTDIR
                | Some Directory \<Rightarrow>
                    if last p = CHR ''/'' then Inl EISDIR
                    else Inr (write_entry (resolve p) (RegularFile content) fs)))"

subsection \<open>Strings\<close>

text \<open>
  \<^verbatim>\<open>s.endsWith(suffix)\<close>, and \<^verbatim>\<open>s.replace(pattern, replacement)\<close> for a string pattern:
  the first occurrence of the pattern is replaced, later ones are kept.
\<close>

definition endsWith :: "string \<Rightarrow> string \<Rightarrow> bool" where
  "endsWith s suffix = (take (length suffix) (rev s) = rev suffix)"

fun replace :: "string \<Rightarrow> string \<Rightarrow> string \<Rightarrow> string" where
  "replace [] pattern replacement =
     (if pattern = [] then replacement else [])"
| "replace (c # s) pattern replacement =
     (if take (length pattern) (c # s) = pattern
      then replacement @ drop (length pattern) (c # s)
      else c # replace s pattern replacement)"

subsection \<open>The two functions of the program\<close>

text \<open>
  The parser and the generator are external: \<^verbatim>\<open>parseJavaScript\<close> returns a tree or raises
  a \<^verbatim>\<open>SyntaxError\<close>, \<^verbatim>\<open>generateTypeScript\<close> prints a tree.  Both are parameters.
\<close>

definition transformJsFileToTsFile ::
  "(string \<Rightarrow> error + program) \<Rightarrow> (program \<Rightarrow> string) \<Rightarrow> path \<Rightarrow> world \<Rightarrow> error + world" where
  "transformJsFileToTsFile parseJavaScript generateTypeScript jsFilePath w =
     and_then (readFileSync (files w) jsFilePath) (\<lambda>jsCode.
     and_then (parseJavaScript jsCode) (\<lambda>ast.
     and_then (addTypeAnnotations ast) (\<lambda>ast'.
     let tsCode = generateTypeScript ast';
         tsFilePath = replace jsFilePath ''.js'' ''.ts''
     in and_then (writeFileSync (files w) tsFilePath tsCode) (\<lambda>fs'.
        Inr \<lparr>files = fs', console = console w @ [(jsFilePath, tsFilePath)]\<rparr>))))"

text \<open>
  \<^verbatim>\<open>files.forEach(callback)\<close> on the state, and the callback of \<^verbatim>\<open>transformJsFilesInDir\<close>.
\<close>

fun forEach :: "('a \<Rightarrow> world \<Rightarrow> error + world) \<Rightarrow> 'a list \<Rightarrow> world \<Rightarrow> error + world" where
  "forEach f [] w = Inr w"
| "forEach f (x # xs) w = and_then (f x w) (forEach f xs)"

definition transformJsFilesInDir_callback ::
  "(string \<Rightarrow> error + program) \<Rightarrow> (program \<Rightarrow> string) \<Rightarrow> path \<Rightarrow> string \<Rightarrow> world \<Rightarrow>
   error + world" where
  "transformJsFilesInDir_callback parseJavaScript generateTypeScript dirPath file w =
     (let filePath = path_join dirPath file in
      and_then (statSync (files w) filePath) (\<lambda>stats.
      if isFile stats \<and> endsWith filePath ''.js''
      then transformJsFileToTsFile parseJavaScript generateTypeScript filePath w
      else Inr w))"

definition transformJsFilesInDir ::
  "(string \<Rightarrow> error + program) \<Rightarrow> (program \<Rightarrow> string) \<Rightarrow> path \<Rightarrow> world \<Rightarrow> error + world" where
  "transformJsFilesInDir parseJavaScript generateTypeScript dirPath w =
     and_then (readdirSync (files w) dirPath) (\<lambda>files'.
     forEach (transformJsFilesInDir_callback parseJavaScript generateTypeScript dirPath) files' w)"


section \<open>Vocabulary for the properties\<close>

text \<open>
  The arguments of the return statements that stand directly in a statement list, in
  order: the statements the loops of the two function visitors act on.
\<close>

definition top_level_return_arguments :: "statement list \<Rightarrow> expression list" where
  "top_level_return_arguments body =
     concat (map (\<lambda>statement. case statement of
                    ReturnStatement (Some argument) \<Rightarrow> [argument]
                  | _ \<Rightarrow> []) body)"

text \<open>
  Every annotation slot of a tree, in traversal order, with the place it occupies: the
  \<^verbatim>\<open>id\<close> of a declarator, a parameter or the return type of a function (of one of the
  three kinds of function node), or a binding nested inside another binding (the left
  side of a default, the argument of a rest element, an element of an array pattern).
\<close>

datatype function_kind = OfDeclaration | OfArrow | OfFunctionExpression

datatype role = DeclaratorId | Parameter function_kind | ReturnType function_kind | Nested

fun slots_expression :: "expression \<Rightarrow> (role \<times> slot) list"
  and slots_property :: "property \<Rightarrow> (role \<times> slot) list"
  and slots_arrow_body :: "arrow_body \<Rightarrow> (role \<times> slot) list"
  and slots_pattern :: "role \<Rightarrow> pattern \<Rightarrow> (role \<times> slot) list"
  and slots_statement :: "statement \<Rightarrow> (role \<times> slot) list"
  and slots_declarator :: "declarator \<Rightarrow> (role \<times> slot) list"
where
  "slots_expression (NumericLiteral v) = []"
| "slots_expression (StringLiteral v) = []"
| "slots_expression (BooleanLiteral v) = []"
| "slots_expression NullLiteral = []"
| "slots_expression (Identifier name) = []"
| "slots_expression (ArrayExpression elements) =
     concat (map (\<lambda>el. case el of None \<Rightarrow> [] | Some e \<Rightarrow> slots_expression e) elements)"
| "slots_expression (CallExpression callee arguments) =
     slots_expression callee @ concat (map slots_expression arguments)"
| "slots_expression (ObjectExpression properties) = concat (map slots_property properties)"
| "slots_expression (TemplateLiteral quasis expressions) =
     concat (map slots_expression expressions)"
| "slots_expression (BinaryExpression operator left right) =
     slots_expression left @ slots_expression right"
| "slots_expression (ArrowFunctionExpression params returnType body) =
     concat (map (slots_pattern (Parameter OfArrow)) params) @
     (ReturnType OfArrow, returnType) # slots_arrow_body body"
| "slots_expression (FunctionExpression name params returnType body) =
     concat (map (slots_pattern (Parameter OfFunctionExpression)) params) @
     (ReturnType OfFunctionExpression, returnType) # concat (map slots_statement body)"
| "slots_property (ObjectProperty key v) = slots_expression v"
| "slots_arrow_body (ExpressionBody expression) = slots_expression expression"
| "slots_arrow_body (BlockBody statements) = concat (map slots_statement statements)"
| "slots_pattern r (IdentifierPattern name s) = [(r, s)]"
| "slots_pattern r (AssignmentPattern left right s) =
     (r, s) # slots_pattern Nested left @ slots_expression right"
| "slots_pattern r (RestElement argument s) = (r, s) # slots_pattern Nested argument"
| "slots_pattern r (ArrayPattern elements s) =
     (r, s) # concat (map (\<lambda>el. case el of None \<Rightarrow> [] | Some p \<Rightarrow> slots_pattern Nested p) elements)"
| "slots_statement (VariableDeclaration kind declarations) =
     concat (map slots_declarator declarations)"
| "slots_statement (FunctionDeclaration name params returnType body) =
     concat (map (slots_pattern (Parameter OfDeclaration)) params) @
     (ReturnType OfDeclaration, returnType) # concat (map slots_statement body)"
| "slots_statement (ReturnStatement argument) =
     (case argument of None \<Rightarrow> [] | Some e \<Rightarrow> slots_expression e)"
| "slots_statement (ExpressionStatement expression) = slots_expression expression"
| "slots_statement (BlockStatement body) = concat (map slots_statement body)"
| "slots_statement (IfStatement test consequent alternate) =
     slots_expression test @ slots_statement consequent @
     (case alternate of None \<Rightarrow> [] | Some s \<Rightarrow> slots_statement s)"
| "slots_declarator (VariableDeclarator lhs init) =
     slots_pattern DeclaratorId lhs @ (case init of None \<Rightarrow> [] | Some e \<Rightarrow> slots_expression e)"

definition slots_program :: "program \<Rightarrow> (role \<times> slot) list" where
  "slots_program ast = concat (map slots_statement ast)"

text \<open>
  The places the annotator writes: the \<^verbatim>\<open>id\<close> of a declarator and the parameters and
  return type of a function declaration or an arrow function.
\<close>

fun visited :: "role \<Rightarrow> bool" where
  "visited DeclaratorId = True"
| "visited (Parameter k) = (k \<noteq> OfFunctionExpression)"
| "visited (ReturnType k) = (k \<noteq> OfFunctionExpression)"
| "visited Nested = False"

text \<open>
  \<open>written s s'\<close>: \<open>s'\<close> is \<open>s\<close> after exactly one assignment.  \<open>slot_step\<close> relates a
  slot before the pass to the same slot after it: a declarator's \<^verbatim>\<open>id\<close> and a parameter
  of a declaration or arrow function are written, their return type is written when it
  was empty and kept otherwise, and every other slot is kept.
\<close>

definition written :: "slot \<Rightarrow> slot \<Rightarrow> bool" where
  "written s s' = (annotation s' \<noteq> None \<and> assignments s' = Suc (assignments s))"

fun slot_step :: "role \<times> slot \<Rightarrow> role \<times> slot \<Rightarrow> bool" where
  "slot_step (DeclaratorId, s) (r', s') = (r' = DeclaratorId \<and> written s s')"
| "slot_step (Parameter OfFunctionExpression, s) (r', s') =
     (r' = Parameter OfFunctionExpression \<and> s' = s)"
| "slot_step (Parameter k, s) (r', s') = (r' = Parameter k \<and> written s s')"
| "slot_step (ReturnType OfFunctionExpression, s) (r', s') =
     (r' = ReturnType OfFunctionExpression \<and> s' = s)"
| "slot_step (ReturnType k, s) (r', s') =
     (r' = ReturnType k \<and> (if annotation s = None then written s s' else s' = s))"
| "slot_step (Nested, s) (r', s') = (r' = Nested \<and> s' = s)"

definition inner_slots :: "pattern \<Rightarrow> (role \<times> slot) list" where
  "inner_slots p = tl (slots_pattern Nested p)"

text \<open>The program \<^verbatim>\<open>const f = function (a) { return 1; };\<close> as parsed.\<close>

definition function_expression_example :: program where
  "function_expression_example =
     [VariableDeclaration ''const''
        [VariableDeclarator (IdentifierPattern ''f'' (Slot None 0))
           (Some (FunctionExpression None [IdentifierPattern ''a'' (Slot None 0)] (Slot None 0)
              [ReturnStatement (Some (NumericLiteral 1))]))]]"

text \<open>
  A tree with every annotation slot emptied: two trees with the same image differ in
  their annotation slots only.
\<close>

fun erase_expression :: "expression \<Rightarrow> expression"
  and erase_property :: "property \<Rightarrow> property"
  and erase_arrow_body :: "arrow_body \<Rightarrow> arrow_body"
  and erase_pattern :: "pattern \<Rightarrow> pattern"
  and erase_statement :: "statement \<Rightarrow> statement"
  and erase_declarator :: "declarator \<Rightarrow> declarator"
where
  "erase_expression (NumericLiteral v) = NumericLiteral v"
| "erase_expression (StringLiteral v) = StringLiteral v"
| "erase_expression (BooleanLiteral v) = BooleanLiteral v"
| "erase_expression NullLiteral = NullLiteral"
| "erase_expression (Identifier name) = Identifier name"
| "erase_expression (ArrayExpression elements) =
     ArrayExpression (map (map_option erase_expression) elements)"
| "erase_expression (CallExpression callee arguments) =
     CallExpression (erase_expression callee) (map erase_expression arguments)"
| "erase_expression (ObjectExpression properties) =
     ObjectExpression (map erase_property properties)"
| "erase_expression (TemplateLiteral quasis expressions) =
     TemplateLiteral quasis (map erase_expression expressions)"
| "erase_expression (BinaryExpression operator left right) =
     BinaryExpression operator (erase_expression left) (erase_expression right)"
| "erase_expression (ArrowFunctionExpression params returnType body) =
     ArrowFunctionExpression (map erase_pattern params) (Slot None 0) (erase_arrow_body body)"
| "erase_expression (FunctionExpression name params returnType body) =
     FunctionExpression name (map erase_pattern params) (Slot None 0) (map erase_statement body)"
| "erase_property (ObjectProperty key v) = ObjectProperty key (erase_expression v)"
| "erase_arrow_body (ExpressionBody expression) = ExpressionBody (erase_expression expression)"
| "erase_arrow_body (BlockBody statements) = BlockBody (map erase_statement statements)"
| "erase_pattern (IdentifierPattern name s) = IdentifierPattern name (Slot None 0)"
| "erase_pattern (AssignmentPattern left right s) =
     AssignmentPattern (erase_pattern left) (erase_expression right) (Slot None 0)"
| "erase_pattern (RestElement argument s) = RestElement (erase_pattern argument) (Slot None 0)"
| "erase_pattern (ArrayPattern elements s) =
     ArrayPattern (map (map_option erase_pattern) elements) (Slot None 0)"
| "erase_statement (VariableDeclaration kind declarations) =
     VariableDeclaration kind (map erase_declarator declarations)"
| "erase_statement (FunctionDeclaration name params returnType body) =
     FunctionDeclaration name (map erase_pattern params) (Slot None 0) (map erase_statement body)"
| "erase_statement (ReturnStatement argument) =
     ReturnStatement (map_option erase_expression argument)"
| "erase_statement (ExpressionStatement expression) =
     ExpressionStatement (erase_expression expression)"
| "erase_statement (BlockStatement body) = BlockStatement (map erase_statement body)"
| "erase_statement (IfStatement test consequent alternate) =
     IfStatement (erase_expression test) (erase_statement consequent)
       (map_option erase_statement alternate)"
| "erase_declarator (VariableDeclarator lhs init) =
     VariableDeclarator (erase_pattern lhs) (map_option erase_expression init)"

text \<open>
  The program \<^verbatim>\<open>function f(a) { return 1; } const g = (x): string => 5;\<close> as parsed, and
  as annotated.
\<close>

definition declarations_example :: program where
  "declarations_example =
     [FunctionDeclaration ''f'' [IdentifierPattern ''a'' (Slot None 0)] (Slot None 0)
        [ReturnStatement (Some (NumericLiteral 1))],
      VariableDeclaration ''const''
        [VariableDeclarator (IdentifierPattern ''g'' (Slot None 0))
           (Some (ArrowFunctionExpression [IdentifierPattern ''x'' (Slot None 0)]
              (Slot (Some TSStringKeyword) 0) (ExpressionBody (NumericLiteral 5))))]]"

definition declarations_example_annotated :: program where
  "declarations_example_annotated =
     [FunctionDeclaration ''f'' [IdentifierPattern ''a'' (Slot (Some TSAnyKeyword) 1)]
        (Slot (Some TSNumberKeyword) 1) [ReturnStatement (Some (NumericLiteral 1))],
      VariableDeclaration ''const''
        [VariableDeclarator (IdentifierPattern ''g'' (Slot (Some TSAnyKeyword) 1))
           (Some (ArrowFunctionExpression [IdentifierPattern ''x'' (Slot (Some TSAnyKeyword) 1)]
              (Slot (Some TSStringKeyword) 0) (ExpressionBody (NumericLiteral 5))))]]"

text \<open>
  The claimed rule of element-type unification: every element has a tag among \<open>null\<close>,
  \<open>number\<close>, \<open>string\<close>, \<open>boolean\<close>, \<open>undefined\<close> and \<open>any\<close>, every shape that matches
  none of the five has the tag \<open>any\<close>, and the element type is the one distinct tag if
  there is exactly one, and \<open>any\<close> otherwise.
\<close>

fun claimed_element_tag :: "expression option \<Rightarrow> string" where
  "claimed_element_tag None = ''null''"
| "claimed_element_tag (Some (NumericLiteral v)) = ''number''"
| "claimed_element_tag (Some (StringLiteral v)) = ''string''"
| "claimed_element_tag (Some (BooleanLiteral v)) = ''boolean''"
| "claimed_element_tag (Some NullLiteral) = ''null''"
| "claimed_element_tag (Some (Identifier name)) =
     (if name = ''undefined'' then ''undefined'' else ''any'')"
| "claimed_element_tag (Some el) = ''any''"

definition claimed_element_type :: "expression option list \<Rightarrow> string" where
  "claimed_element_type elements =
     (let tags = remdups (map claimed_element_tag elements) in
      if length tags = 1 then hd tags else ''any'')"

definition tag_of :: "js_value \<Rightarrow> string" where
  "tag_of v = (case v of JSString s \<Rightarrow> s | JSUndefined \<Rightarrow> ''any'')"

text \<open>
  A parser and a generator that know one program, \<^verbatim>\<open>let y;\<close>, and a working directory
  with four directories: \<^verbatim>\<open>src\<close>, with a stale \<^verbatim>\<open>a.ts\<close> and a subdirectory; \<^verbatim>\<open>bad\<close>,
  whose second file does not parse; \<^verbatim>\<open>proj.js\<close>, whose own name contains \<^verbatim>\<open>.js\<close>; and,
  in the second table, \<^verbatim>\<open>proj.ts\<close>.
\<close>

definition example_parse :: "string \<Rightarrow> error + program" where
  "example_parse jsCode =
     (if jsCode = ''let y;''
      then Inr [VariableDeclaration ''let''
                 [VariableDeclarator (IdentifierPattern ''y'' (Slot None 0)) None]]
      else Inl SyntaxError)"

definition example_generate :: "program \<Rightarrow> string" where
  "example_generate ast =
     (if ast = [VariableDeclaration ''let''
                 [VariableDeclarator (IdentifierPattern ''y'' (Slot (Some TSAnyKeyword) 1)) None]]
      then ''let y: any;'' else [])"

definition example_files :: filesystem where
  "example_files =
     [(''.'', Directory), (''src'', Directory), (''src/notes.txt'', RegularFile ''text''),
      (''src/lib'', Directory), (''src/lib/b.js'', RegularFile ''let y;''),
      (''src/a.ts'', RegularFile ''old''), (''src/a.js'', RegularFile ''let y;''),
      (''top.js'', RegularFile ''let y;''),
      (''bad'', Directory), (''bad/a.js'', RegularFile ''let y;''),
      (''bad/b.js'', RegularFile ''let''),
      (''proj.js'', Directory), (''proj.js/a.js'', RegularFile ''let y;'')]"

definition example_files_with_proj_ts :: filesystem where
  "example_files_with_proj_ts = example_files @ [(''proj.ts'', Directory)]"



section \<open>Properties of the Deducer\<close>

text \<open>
  C1.  A numeric literal is typed \<open>number\<close>, a string literal \<open>string\<close>, a boolean literal
  \<open>boolean\<close>, the null literal \<open>null\<close>, the identifier \<open>undefined\<close> is typed
  \<open>undefined\<close>, and every expression of any other shape that is not an array literal (a
  call, an object literal, a template literal, a binary expression, a function, an
  identifier of any other name) is typed \<open>any\<close>.
\<close>

theorem deduceExpressionType_scalar:
  "deduceExpressionType (Some (NumericLiteral n)) = Inr TSNumberKeyword \<and>
   deduceExpressionType (Some (StringLiteral s)) = Inr TSStringKeyword \<and>
   deduceExpressionType (Some (BooleanLiteral b)) = Inr TSBooleanKeyword \<and>
   deduceExpressionType (Some NullLiteral) = Inr TSNullKeyword \<and>
   deduceExpressionType (Some (Identifier ''undefined'')) = Inr TSUndefinedKeyword \<and>
   ((\<forall>v. e \<noteq> NumericLiteral v) \<and> (\<forall>v. e \<noteq> StringLiteral v) \<and>
    (\<forall>v. e \<noteq> BooleanLiteral v) \<and> e \<noteq> NullLiteral \<and>
    e \<noteq> Identifier ''undefined'' \<and> (\<forall>elements. e \<noteq> ArrayExpression elements) \<longrightarrow>
    deduceExpressionType (Some e) = Inr TSAnyKeyword)"
  by (cases e) auto

theorem deduceExpressionType_scalar_witness:
  "deduceExpressionType (Some (CallExpression (Identifier ''f'') [NumericLiteral 1]))
     = Inr TSAnyKeyword \<and>
   deduceExpressionType (Some (ObjectExpression [ObjectProperty ''k'' (NumericLiteral 1)]))
     = Inr TSAnyKeyword \<and>
   deduceExpressionType (Some (TemplateLiteral [''a''] [])) = Inr TSAnyKeyword \<and>
   deduceExpressionType (Some (BinaryExpression ''+'' (NumericLiteral 1) (NumericLiteral 2)))
     = Inr TSAnyKeyword \<and>
   deduceExpressionType (Some (Identifier ''x'')) = Inr TSAnyKeyword"
  using
    deduceExpressionType_scalar [where e = "CallExpression (Identifier ''f'') [NumericLiteral 1]"]
    deduceExpressionType_scalar [where e = "ObjectExpression [ObjectProperty ''k'' (NumericLiteral 1)]"]
    deduceExpressionType_scalar [where e = "TemplateLiteral [''a''] []"]
    deduceExpressionType_scalar [where e = "BinaryExpression ''+'' (NumericLiteral 1) (NumericLiteral 2)"]
    deduceExpressionType_scalar [where e = "Identifier ''x''"]
  by simp

text \<open>
  The examples of element-type unification: \<^verbatim>\<open>[]\<close>, \<^verbatim>\<open>[1,2,3]\<close>, \<^verbatim>\<open>["a",1]\<close>,
  \<^verbatim>\<open>[null,null]\<close> and \<^verbatim>\<open>[undefined]\<close>.  The element type is a reference to a type named
  by the tag, not a keyword.
\<close>

lemma deduceElementType_examples:
  "deduceExpressionType (Some (ArrayExpression []))
     = Inr (TSArrayType (TSTypeReference ''any''))"
  "deduceExpressionType (Some (ArrayExpression
      [Some (NumericLiteral 1), Some (NumericLiteral 2), Some (NumericLiteral 3)]))
     = Inr (TSArrayType (TSTypeReference ''number''))"
  "deduceExpressionType (Some (ArrayExpression [Some (StringLiteral ''a''), Some (NumericLiteral 1)]))
     = Inr (TSArrayType (TSTypeReference ''any''))"
  "deduceExpressionType (Some (ArrayExpression [Some NullLiteral, Some NullLiteral]))
     = Inr (TSArrayType (TSTypeReference ''null''))"
  "deduceExpressionType (Some (ArrayExpression [Some (Identifier ''undefined'')]))
     = Inr (TSArrayType (TSTypeReference ''undefined''))"
  by (simp_all add: deduceElementType_def new_Set_def set_add_def t_identifier_def)

text \<open>
  The set of element types has the elements of the list as its members, each once, so
  \<^verbatim>\<open>deduceElementType\<close> returns the one distinct value of the callback if there is exactly
  one, and \<open>any\<close> otherwise.
\<close>

lemma foldl_set_add:
  "set (foldl set_add acc xs) = set acc \<union> set xs \<and>
   (distinct acc \<longrightarrow> distinct (foldl set_add acc xs))"
  by (induction xs arbitrary: acc) (auto simp: set_add_def)

lemma new_Set_set [simp]: "set (new_Set xs) = set xs"
  by (simp add: new_Set_def foldl_set_add)

lemma new_Set_distinct [simp]: "distinct (new_Set xs)"
  by (simp add: new_Set_def foldl_set_add)

lemma new_Set_size: "length (new_Set xs) = card (set xs)"
  using distinct_card [of "new_Set xs"] by simp

lemma deduceElementType_set:
  "deduceElementType elements =
     (if card (element_tag ` set elements) = 1 then the_elem (element_tag ` set elements)
      else JSString ''any'')"
proof (cases "card (element_tag ` set elements) = 1")
  case True
  then obtain v where v: "element_tag ` set elements = {v}"
    by (auto simp: card_1_singleton_iff)
  from True have l: "length (new_Set (map element_tag elements)) = 1"
    by (simp add: new_Set_size)
  then obtain u where u: "new_Set (map element_tag elements) = [u]"
    by (cases "new_Set (map element_tag elements)") auto
  then have "set (new_Set (map element_tag elements)) = {u}" by simp
  with v have "u = v" by simp
  moreover from v have "elements \<noteq> []" by auto
  ultimately show ?thesis using v u l by (simp add: deduceElementType_def)
next
  case False
  then show ?thesis
    by (auto simp: deduceElementType_def new_Set_size Let_def)
qed

lemma element_tag_JSUndefined:
  "element_tag el = JSUndefined \<longleftrightarrow> (\<exists>name. el = Some (Identifier name) \<and> name \<noteq> ''undefined'')"
  by (cases el rule: element_tag.cases) auto

lemma deduceElementType_JSUndefined:
  "deduceElementType elements = JSUndefined \<longleftrightarrow>
     elements \<noteq> [] \<and>
     (\<forall>el \<in> set elements. \<exists>name. el = Some (Identifier name) \<and> name \<noteq> ''undefined'')"
proof -
  have "deduceElementType elements = JSUndefined \<longleftrightarrow> element_tag ` set elements = {JSUndefined}"
  proof
    assume u: "deduceElementType elements = JSUndefined"
    then have "card (element_tag ` set elements) = 1"
      unfolding deduceElementType_set by (simp split: if_splits)
    then obtain v where v: "element_tag ` set elements = {v}"
      by (auto simp: card_1_singleton_iff)
    with u show "element_tag ` set elements = {JSUndefined}"
      unfolding deduceElementType_set by simp
  next
    assume "element_tag ` set elements = {JSUndefined}"
    then show "deduceElementType elements = JSUndefined"
      unfolding deduceElementType_set by simp
  qed
  also have "\<dots> \<longleftrightarrow> elements \<noteq> [] \<and> (\<forall>el \<in> set elements. element_tag el = JSUndefined)"
  proof
    assume i: "element_tag ` set elements = {JSUndefined}"
    then have "elements \<noteq> []" by auto
    moreover from i have "\<forall>el \<in> set elements. element_tag el \<in> {JSUndefined}"
      by blast
    ultimately show "elements \<noteq> [] \<and> (\<forall>el \<in> set elements. element_tag el = JSUndefined)"
      by simp
  next
    assume "elements \<noteq> [] \<and> (\<forall>el \<in> set elements. element_tag el = JSUndefined)"
    then show "element_tag ` set elements = {JSUndefined}"
      by (cases elements) auto
  qed
  finally show ?thesis by (simp add: element_tag_JSUndefined)
qed

lemma deduceExpressionType_raises_iff:
  "deduceExpressionType expression = Inl err \<longleftrightarrow>
     err = TypeError \<and>
     (\<exists>elements. expression = Some (ArrayExpression elements) \<and> elements \<noteq> [] \<and>
        (\<forall>el \<in> set elements. \<exists>name. el = Some (Identifier name) \<and> name \<noteq> ''undefined''))"
proof (cases expression rule: deduceExpressionType.cases)
  case (6 elements)
  have "t_identifier (deduceElementType elements) = Inl err \<longleftrightarrow>
        err = TypeError \<and> deduceElementType elements = JSUndefined"
    by (auto simp: t_identifier_def split: js_value.splits)
  with 6 show ?thesis
    by (auto simp: deduceElementType_JSUndefined split: sum.splits)
qed auto

lemma claimed_element_tag_eq: "claimed_element_tag el = tag_of (element_tag el)"
  by (cases el rule: element_tag.cases) (auto simp: tag_of_def)

lemma claimed_element_type_set:
  "claimed_element_type elements =
     (if card (claimed_element_tag ` set elements) = 1
      then the_elem (claimed_element_tag ` set elements) else ''any'')"
proof -
  let ?tags = "remdups (map claimed_element_tag elements)"
  have l: "length ?tags = card (claimed_element_tag ` set elements)"
    using distinct_card [of ?tags] by simp
  show ?thesis
  proof (cases "card (claimed_element_tag ` set elements) = 1")
    case True
    with l obtain u where u: "?tags = [u]" by (cases ?tags) auto
    then have "set ?tags = {u}" by simp
    then have "claimed_element_tag ` set elements = {u}" by simp
    with True u l show ?thesis by (simp add: claimed_element_type_def)
  next
    case False
    with l show ?thesis by (simp add: claimed_element_type_def)
  qed
qed

lemma tag_of_collision:
  "tag_of u = tag_of v \<Longrightarrow> u \<noteq> v \<Longrightarrow> tag_of u = ''any''"
  by (cases u; cases v) (auto simp: tag_of_def)

lemma deduceElementType_claimed:
  assumes "deduceElementType elements \<noteq> JSUndefined"
  shows "deduceElementType elements = JSString (claimed_element_type elements)"
proof -
  let ?T = "element_tag ` set elements"
  have C: "claimed_element_tag ` set elements = tag_of ` ?T"
    by (simp add: image_image claimed_element_tag_eq)
  show ?thesis
  proof (cases "card ?T = 1")
    case True
    then obtain v where v: "?T = {v}" by (auto simp: card_1_singleton_iff)
    with assms have "v \<noteq> JSUndefined" by (simp add: deduceElementType_set)
    then obtain s where s: "v = JSString s" by (cases v) auto
    with v show ?thesis
      by (simp add: deduceElementType_set claimed_element_type_set C tag_of_def)
  next
    case False
    have "claimed_element_type elements = ''any''"
    proof (cases "card (tag_of ` ?T) = 1")
      case True
      then obtain s where s: "tag_of ` ?T = {s}" by (auto simp: card_1_singleton_iff)
      then have "s \<in> tag_of ` ?T" by simp
      then obtain u where u: "u \<in> ?T" "s = tag_of u" by (rule imageE)
      have "\<exists>v \<in> ?T. v \<noteq> u"
      proof (rule ccontr)
        assume "\<not> (\<exists>v \<in> ?T. v \<noteq> u)"
        then have "?T \<subseteq> {u}" by fast
        with u(1) have "?T = {u}" by fast
        with False show False by simp
      qed
      then obtain v where v: "v \<in> ?T" "v \<noteq> u" by fast
      from v(1) have "tag_of v \<in> tag_of ` ?T" by (rule imageI)
      with s have "tag_of v = s" by simp
      with u v have "s = ''any''" using tag_of_collision [of u v] by simp
      with s show ?thesis by (simp add: claimed_element_type_set C)
    next
      case False
      then show ?thesis by (simp add: claimed_element_type_set C)
    qed
    with False show ?thesis by (simp add: deduceElementType_set)
  qed
qed

text \<open>
  On an array literal the Deducer raises exactly when the literal is not empty and all
  its elements are identifiers other than \<open>undefined\<close>; on every other array literal it
  returns the array type of the claimed element type.
\<close>

lemma deduceExpressionType_array_claimed:
  "deduceExpressionType (Some (ArrayExpression elements)) =
     (if elements \<noteq> [] \<and>
         (\<forall>el \<in> set elements. \<exists>name. el = Some (Identifier name) \<and> name \<noteq> ''undefined'')
      then Inl TypeError
      else Inr (TSArrayType (TSTypeReference (claimed_element_type elements))))"
proof (cases "deduceElementType elements = JSUndefined")
  case True
  then show ?thesis
    using deduceElementType_JSUndefined [of elements] by (simp add: t_identifier_def)
next
  case False
  from deduceElementType_claimed [OF this] False show ?thesis
    using deduceElementType_JSUndefined [of elements] by (simp add: t_identifier_def)
qed

text \<open>
  C2.  The claim maps every element that is none of the listed literals to the tag \<open>any\<close>.
  At the array literal \<^verbatim>\<open>[x]\<close> the callback returns no tag for the identifier \<open>x\<close>: the
  set of element types is \<^verbatim>\<open>{undefined}\<close>, of size 1, the element type is the value
  \<^verbatim>\<open>undefined\<close>, and building the type reference raises.  The claim's result there is
  array-of(\<open>any\<close>).
\<close>

theorem deduceElementType_identifier_element:
  "element_tag (Some (Identifier ''x'')) = JSUndefined \<and>
   deduceElementType [Some (Identifier ''x'')] = JSUndefined \<and>
   deduceExpressionType (Some (ArrayExpression [Some (Identifier ''x'')])) = Inl TypeError"
  by (simp add: deduceElementType_def new_Set_def set_add_def t_identifier_def)

text \<open>
  C4.  The Deducer is not total: on the array literal \<^verbatim>\<open>[a, b]\<close>, whose elements are
  identifiers other than \<open>undefined\<close>, it raises a \<^verbatim>\<open>TypeError\<close> and returns no type.
\<close>

theorem deduceExpressionType_raises:
  "deduceExpressionType
     (Some (ArrayExpression [Some (Identifier ''a''), Some (Identifier ''b'')])) = Inl TypeError"
  by (simp add: deduceElementType_def new_Set_def set_add_def t_identifier_def)

section \<open>Properties of the visitors\<close>

lemma and_then_Inr [simp]: "and_then m f = Inr y \<longleftrightarrow> (\<exists>x. m = Inr x \<and> f x = Inr y)"
  by (auto simp: and_then_def split: sum.splits)

lemma and_then_simps [simp]: "and_then (Inr x) f = f x" "and_then (Inl e) f = Inl e"
  by (simp_all add: and_then_def)

text \<open>
  The loop over the body returns the last element of the sequence that starts with the
  initial return type and continues with the Deducer's results for the top-level return
  arguments; it raises when the Deducer raises on one of them.
\<close>

lemma scan_returns_last:
  "scan_returns returnType body =
     and_then (mapM (\<lambda>argument. deduceExpressionType (Some argument)) (top_level_return_arguments body))
       (\<lambda>tys. Inr (last (returnType # tys)))"
proof (induction returnType body rule: scan_returns.induct)
  case (1 returnType)
  then show ?case by (simp add: top_level_return_arguments_def)
next
  case (2 returnType argument rest)
  then show ?case
    by (cases "deduceExpressionType (Some argument)")
       (auto simp: top_level_return_arguments_def and_then_def split: sum.splits)
qed (simp_all add: top_level_return_arguments_def)

text \<open>
  The return type a function visitor leaves on its node.  A return type that is already
  annotated is kept.  Otherwise, for a block body, the Deducer is run on the argument of
  every top-level return statement that has one, in order; if it raises on one of them
  the visitor raises, and if not the slot is assigned the last result, or \<open>void\<close> when
  there is none: the last element of \<open>void\<close> followed by the results.  For an arrow
  function with an expression body the slot is assigned the Deducer's result for that
  expression.
\<close>

lemma visitors_return_type:
  "FunctionDeclaration_visitor params returnType body =
     (if annotation returnType \<noteq> None
      then Inr (map (set_typeAnnotation TSAnyKeyword) params, returnType)
      else and_then
        (mapM (\<lambda>argument. deduceExpressionType (Some argument)) (top_level_return_arguments body))
        (\<lambda>tys. Inr (map (set_typeAnnotation TSAnyKeyword) params,
                     Slot (Some (last (TSVoidKeyword # tys))) (Suc (assignments returnType)))))"
  "ArrowFunctionExpression_visitor params returnType (BlockBody body) =
     (if annotation returnType \<noteq> None
      then Inr (map (set_typeAnnotation TSAnyKeyword) params, returnType)
      else and_then
        (mapM (\<lambda>argument. deduceExpressionType (Some argument)) (top_level_return_arguments body))
        (\<lambda>tys. Inr (map (set_typeAnnotation TSAnyKeyword) params,
                     Slot (Some (last (TSVoidKeyword # tys))) (Suc (assignments returnType)))))"
  "ArrowFunctionExpression_visitor params returnType (ExpressionBody expression) =
     (if annotation returnType \<noteq> None
      then Inr (map (set_typeAnnotation TSAnyKeyword) params, returnType)
      else and_then (deduceExpressionType (Some expression))
        (\<lambda>ty. Inr (map (set_typeAnnotation TSAnyKeyword) params,
                    Slot (Some ty) (Suc (assignments returnType)))))"
  by (cases body; cases returnType;
      auto simp: FunctionDeclaration_visitor_def ArrowFunctionExpression_visitor_def Let_def
        scan_returns_last and_then_def top_level_return_arguments_def split: sum.splits)+

text \<open>
  C3.  The claim gives \<^verbatim>\<open>function m() { return [x]; return 1; }\<close> the return type
  \<open>number\<close>, the Deducer's result for its last top-level return.  The visitor runs the
  Deducer on the argument of every top-level return in order, the Deducer raises on
  \<^verbatim>\<open>[x]\<close> (C2, C4), and the visitor, and with it the pass, raises: no return type is set.
  The same holds for an arrow function with that body.
\<close>

theorem return_type_not_set_when_earlier_return_raises:
  "FunctionDeclaration_visitor [] (Slot None 0)
     [ReturnStatement (Some (ArrayExpression [Some (Identifier ''x'')])),
      ReturnStatement (Some (NumericLiteral 1))] = Inl TypeError \<and>
   ArrowFunctionExpression_visitor [] (Slot None 0)
     (BlockBody [ReturnStatement (Some (ArrayExpression [Some (Identifier ''x'')])),
                 ReturnStatement (Some (NumericLiteral 1))]) = Inl TypeError \<and>
   deduceExpressionType (Some (NumericLiteral 1)) = Inr TSNumberKeyword \<and>
   addTypeAnnotations
     [FunctionDeclaration ''m'' [] (Slot None 0)
        [ReturnStatement (Some (ArrayExpression [Some (Identifier ''x'')])),
         ReturnStatement (Some (NumericLiteral 1))]] = Inl TypeError"
  by (simp add: addTypeAnnotations_def FunctionDeclaration_visitor_def
      ArrowFunctionExpression_visitor_def deduceElementType_def new_Set_def set_add_def
      t_identifier_def)

text \<open>
  The traversal keeps the return type its visitor has set: nothing below a function node
  writes to the node's own slot.
\<close>

lemma traverse_keeps_visitor_returnType:
  "traverse_statement (FunctionDeclaration name params returnType body) = Inr s' \<Longrightarrow>
   \<exists>params' returnType' params'' body'.
     FunctionDeclaration_visitor params returnType body = Inr (params', returnType') \<and>
     s' = FunctionDeclaration name params'' returnType' body'"
  "traverse_expression (ArrowFunctionExpression params returnType abody) = Inr e' \<Longrightarrow>
   \<exists>params' returnType' params'' abody'.
     ArrowFunctionExpression_visitor params returnType abody = Inr (params', returnType') \<and>
     e' = ArrowFunctionExpression params'' returnType' abody'"
  by auto

text \<open>
  The pass on the examples of the specification, on a function with two top-level
  returns, on one whose only return is nested in a block, and on one where the Deducer
  raises on a return that is not the last.
\<close>

lemma annotator_examples:
  \<comment> \<open>\<^verbatim>\<open>function f(a, b) { return 1; }\<close>\<close>
  "addTypeAnnotations
     [FunctionDeclaration ''f'' [IdentifierPattern ''a'' (Slot None 0), IdentifierPattern ''b'' (Slot None 0)]
        (Slot None 0) [ReturnStatement (Some (NumericLiteral 1))]]
   = Inr [FunctionDeclaration ''f''
        [IdentifierPattern ''a'' (Slot (Some TSAnyKeyword) 1), IdentifierPattern ''b'' (Slot (Some TSAnyKeyword) 1)]
        (Slot (Some TSNumberKeyword) 1) [ReturnStatement (Some (NumericLiteral 1))]]"
  \<comment> \<open>\<^verbatim>\<open>function g() { if (c) return "a"; return 2; }\<close>\<close>
  "addTypeAnnotations
     [FunctionDeclaration ''g'' [] (Slot None 0)
        [IfStatement (Identifier ''c'') (ReturnStatement (Some (StringLiteral ''a''))) None,
         ReturnStatement (Some (NumericLiteral 2))]]
   = Inr [FunctionDeclaration ''g'' [] (Slot (Some TSNumberKeyword) 1)
        [IfStatement (Identifier ''c'') (ReturnStatement (Some (StringLiteral ''a''))) None,
         ReturnStatement (Some (NumericLiteral 2))]]"
  \<comment> \<open>\<^verbatim>\<open>function h() { return "a"; return 2; }\<close>\<close>
  "addTypeAnnotations
     [FunctionDeclaration ''h'' [] (Slot None 0)
        [ReturnStatement (Some (StringLiteral ''a'')), ReturnStatement (Some (NumericLiteral 2))]]
   = Inr [FunctionDeclaration ''h'' [] (Slot (Some TSNumberKeyword) 1)
        [ReturnStatement (Some (StringLiteral ''a'')), ReturnStatement (Some (NumericLiteral 2))]]"
  \<comment> \<open>\<^verbatim>\<open>function k() { if (c) { return "a"; } }\<close>\<close>
  "addTypeAnnotations
     [FunctionDeclaration ''k'' [] (Slot None 0)
        [IfStatement (Identifier ''c'') (BlockStatement [ReturnStatement (Some (StringLiteral ''a''))]) None]]
   = Inr [FunctionDeclaration ''k'' [] (Slot (Some TSVoidKeyword) 1)
        [IfStatement (Identifier ''c'') (BlockStatement [ReturnStatement (Some (StringLiteral ''a''))]) None]]"
  \<comment> \<open>\<^verbatim>\<open>(x) => 5\<close> and \<^verbatim>\<open>() => {}\<close>\<close>
  "addTypeAnnotations
     [ExpressionStatement (ArrowFunctionExpression [IdentifierPattern ''x'' (Slot None 0)] (Slot None 0)
        (ExpressionBody (NumericLiteral 5)))]
   = Inr [ExpressionStatement (ArrowFunctionExpression [IdentifierPattern ''x'' (Slot (Some TSAnyKeyword) 1)]
        (Slot (Some TSNumberKeyword) 1) (ExpressionBody (NumericLiteral 5)))]"
  "addTypeAnnotations
     [ExpressionStatement (ArrowFunctionExpression [] (Slot None 0) (BlockBody []))]
   = Inr [ExpressionStatement (ArrowFunctionExpression [] (Slot (Some TSVoidKeyword) 1) (BlockBody []))]"
  \<comment> \<open>\<^verbatim>\<open>function m() { return [x]; return 1; }\<close>\<close>
  "addTypeAnnotations
     [FunctionDeclaration ''m'' [] (Slot None 0)
        [ReturnStatement (Some (ArrayExpression [Some (Identifier ''x'')])),
         ReturnStatement (Some (NumericLiteral 1))]]
   = Inl TypeError"
  by (simp_all add: addTypeAnnotations_def FunctionDeclaration_visitor_def
      ArrowFunctionExpression_visitor_def deduceElementType_def new_Set_def set_add_def
      t_identifier_def)

lemma mapM_list_all2:
  "mapM f xs = Inr ys \<Longrightarrow> list_all2 (\<lambda>x y. f x = Inr y) xs ys"
  by (induction xs arbitrary: ys) auto

lemma typeAnnotation_set_typeAnnotation [simp]:
  "typeAnnotation (set_typeAnnotation ty p) = assign ty (typeAnnotation p)"
  by (cases p) simp_all

lemma assign_eq [simp]: "assign ty s = Slot (Some ty) (Suc (assignments s))"
  by (cases s) simp

lemma traverse_pattern_typeAnnotation:
  "traverse_pattern p = Inr p' \<Longrightarrow> typeAnnotation p' = typeAnnotation p"
  by (cases p) auto

lemma VariableDeclarator_visitor_Inr:
  "VariableDeclarator_visitor lhs init = Inr lhs' \<longleftrightarrow>
     (\<exists>ty. (if init = None then Inr TSAnyKeyword else deduceExpressionType init) = Inr ty \<and>
           lhs' = set_typeAnnotation ty lhs)"
  by (auto simp: VariableDeclarator_visitor_def)





lemma traverse_params_typeAnnotation:
  "mapM traverse_pattern ps = Inr ps' \<Longrightarrow> map typeAnnotation ps' = map typeAnnotation ps"
  by (induction ps arbitrary: ps') (auto dest: traverse_pattern_typeAnnotation)

lemma mapM_returns:
  "(\<forall>x \<in> set xs. \<exists>y. f x = Inr y) \<Longrightarrow> \<exists>ys. mapM f xs = Inr ys"
  by (induction xs) auto

text \<open>
  C6.  When the pass has gone through a function declaration or an arrow function, the
  slot of every parameter holds \<open>any\<close> and has been assigned exactly once more, whatever
  the kind of the parameter (a plain name, a default, a rest element, a pattern) and
  whatever it held before.  Both visitors return, with every parameter annotated \<open>any\<close>,
  whenever the return type is already annotated or the Deducer returns on the arguments
  of the top-level returns (on the expression, for an expression body).
\<close>

theorem parameters_any:
  "(traverse_statement (FunctionDeclaration name params returnType body)
      = Inr (FunctionDeclaration name' params' returnType' body') \<longrightarrow>
    map typeAnnotation params' =
      map (\<lambda>p. Slot (Some TSAnyKeyword) (Suc (assignments (typeAnnotation p)))) params) \<and>
   (traverse_expression (ArrowFunctionExpression params returnType abody)
      = Inr (ArrowFunctionExpression params'' returnType'' abody') \<longrightarrow>
    map typeAnnotation params'' =
      map (\<lambda>p. Slot (Some TSAnyKeyword) (Suc (assignments (typeAnnotation p)))) params) \<and>
   (annotation returnType \<noteq> None \<or>
    (\<forall>argument \<in> set (top_level_return_arguments body).
       \<exists>ty. deduceExpressionType (Some argument) = Inr ty) \<longrightarrow>
    (\<exists>rt. FunctionDeclaration_visitor params returnType body =
       Inr (map (set_typeAnnotation TSAnyKeyword) params, rt)) \<and>
    (\<exists>rt. ArrowFunctionExpression_visitor params returnType (BlockBody body) =
       Inr (map (set_typeAnnotation TSAnyKeyword) params, rt))) \<and>
   (annotation returnType \<noteq> None \<or> (\<exists>ty. deduceExpressionType (Some expression) = Inr ty) \<longrightarrow>
    (\<exists>rt. ArrowFunctionExpression_visitor params returnType (ExpressionBody expression) =
       Inr (map (set_typeAnnotation TSAnyKeyword) params, rt)))"
proof (intro conjI impI)
  assume "traverse_statement (FunctionDeclaration name params returnType body)
      = Inr (FunctionDeclaration name' params' returnType' body')"
  then show "map typeAnnotation params' =
      map (\<lambda>p. Slot (Some TSAnyKeyword) (Suc (assignments (typeAnnotation p)))) params"
    by (auto dest!: FunctionDeclaration_visitor_params traverse_params_typeAnnotation)
next
  assume "traverse_expression (ArrowFunctionExpression params returnType abody)
      = Inr (ArrowFunctionExpression params'' returnType'' abody')"
  then show "map typeAnnotation params'' =
      map (\<lambda>p. Slot (Some TSAnyKeyword) (Suc (assignments (typeAnnotation p)))) params"
    by (auto dest!: ArrowFunctionExpression_visitor_params traverse_params_typeAnnotation)
next
  assume a: "annotation returnType \<noteq> None \<or>
    (\<forall>argument \<in> set (top_level_return_arguments body).
       \<exists>ty. deduceExpressionType (Some argument) = Inr ty)"
  show "\<exists>rt. FunctionDeclaration_visitor params returnType body =
       Inr (map (set_typeAnnotation TSAnyKeyword) params, rt)"
  proof (cases "annotation returnType \<noteq> None")
    case True
    then show ?thesis by (simp add: visitors_return_type)
  next
    case False
    with a obtain tys where
      "mapM (\<lambda>argument. deduceExpressionType (Some argument)) (top_level_return_arguments body)
         = Inr tys"
      using mapM_returns [of "top_level_return_arguments body"
          "\<lambda>argument. deduceExpressionType (Some argument)"] by blast
    with False show ?thesis by (simp add: visitors_return_type)
  qed
  show "\<exists>rt. ArrowFunctionExpression_visitor params returnType (BlockBody body) =
       Inr (map (set_typeAnnotation TSAnyKeyword) params, rt)"
  proof (cases "annotation returnType \<noteq> None")
    case True
    then show ?thesis by (simp add: visitors_return_type)
  next
    case False
    with a obtain tys where
      "mapM (\<lambda>argument. deduceExpressionType (Some argument)) (top_level_return_arguments body)
         = Inr tys"
      using mapM_returns [of "top_level_return_arguments body"
          "\<lambda>argument. deduceExpressionType (Some argument)"] by blast
    with False show ?thesis by (simp add: visitors_return_type)
  qed
next
  assume "annotation returnType \<noteq> None \<or> (\<exists>ty. deduceExpressionType (Some expression) = Inr ty)"
  then show "\<exists>rt. ArrowFunctionExpression_visitor params returnType (ExpressionBody expression) =
       Inr (map (set_typeAnnotation TSAnyKeyword) params, rt)"
    by (auto simp: visitors_return_type)
qed

theorem parameters_any_witness:
  "traverse_statement
     (FunctionDeclaration ''f''
        [IdentifierPattern ''a'' (Slot (Some TSStringKeyword) 0),
         AssignmentPattern (IdentifierPattern ''b'' (Slot None 0)) (NumericLiteral 1) (Slot None 0)]
        (Slot None 0) [ReturnStatement (Some (NumericLiteral 1))])
   = Inr (FunctionDeclaration ''f''
        [IdentifierPattern ''a'' (Slot (Some TSAnyKeyword) 1),
         AssignmentPattern (IdentifierPattern ''b'' (Slot None 0)) (NumericLiteral 1)
           (Slot (Some TSAnyKeyword) 1)]
        (Slot (Some TSNumberKeyword) 1) [ReturnStatement (Some (NumericLiteral 1))]) \<and>
   map typeAnnotation
        [IdentifierPattern ''a'' (Slot (Some TSAnyKeyword) 1),
         AssignmentPattern (IdentifierPattern ''b'' (Slot None 0)) (NumericLiteral 1)
           (Slot (Some TSAnyKeyword) 1)]
   = [Slot (Some TSAnyKeyword) (Suc 0), Slot (Some TSAnyKeyword) (Suc 0)] \<and>
   traverse_expression
     (ArrowFunctionExpression
        [IdentifierPattern ''x'' (Slot (Some TSNumberKeyword) 0),
         RestElement (IdentifierPattern ''r'' (Slot None 0)) (Slot None 0)]
        (Slot None 0) (ExpressionBody (NumericLiteral 5)))
   = Inr (ArrowFunctionExpression
        [IdentifierPattern ''x'' (Slot (Some TSAnyKeyword) 1),
         RestElement (IdentifierPattern ''r'' (Slot None 0)) (Slot (Some TSAnyKeyword) 1)]
        (Slot (Some TSNumberKeyword) 1) (ExpressionBody (NumericLiteral 5))) \<and>
   map typeAnnotation
        [IdentifierPattern ''x'' (Slot (Some TSAnyKeyword) 1),
         RestElement (IdentifierPattern ''r'' (Slot None 0)) (Slot (Some TSAnyKeyword) 1)]
   = [Slot (Some TSAnyKeyword) (Suc 0), Slot (Some TSAnyKeyword) (Suc 0)] \<and>
   FunctionDeclaration_visitor [IdentifierPattern ''a'' (Slot (Some TSStringKeyword) 0)]
     (Slot (Some TSStringKeyword) 0) [ReturnStatement (Some (NumericLiteral 1))]
   = Inr ([IdentifierPattern ''a'' (Slot (Some TSAnyKeyword) 1)], Slot (Some TSStringKeyword) 0) \<and>
   ArrowFunctionExpression_visitor [IdentifierPattern ''x'' (Slot None 0)] (Slot None 0)
     (BlockBody [ReturnStatement (Some (NumericLiteral 1))])
   = Inr ([IdentifierPattern ''x'' (Slot (Some TSAnyKeyword) 1)], Slot (Some TSNumberKeyword) 1) \<and>
   ArrowFunctionExpression_visitor [IdentifierPattern ''x'' (Slot None 0)] (Slot None 0)
     (ExpressionBody (NumericLiteral 5))
   = Inr ([IdentifierPattern ''x'' (Slot (Some TSAnyKeyword) 1)], Slot (Some TSNumberKeyword) 1)"
proof -
  have f: "traverse_statement
     (FunctionDeclaration ''f''
        [IdentifierPattern ''a'' (Slot (Some TSStringKeyword) 0),
         AssignmentPattern (IdentifierPattern ''b'' (Slot None 0)) (NumericLiteral 1) (Slot None 0)]
        (Slot None 0) [ReturnStatement (Some (NumericLiteral 1))])
   = Inr (FunctionDeclaration ''f''
        [IdentifierPattern ''a'' (Slot (Some TSAnyKeyword) 1),
         AssignmentPattern (IdentifierPattern ''b'' (Slot None 0)) (NumericLiteral 1)
           (Slot (Some TSAnyKeyword) 1)]
        (Slot (Some TSNumberKeyword) 1) [ReturnStatement (Some (NumericLiteral 1))])"
    by (simp add: FunctionDeclaration_visitor_def)
  have g: "traverse_expression
     (ArrowFunctionExpression
        [IdentifierPattern ''x'' (Slot (Some TSNumberKeyword) 0),
         RestElement (IdentifierPattern ''r'' (Slot None 0)) (Slot None 0)]
        (Slot None 0) (ExpressionBody (NumericLiteral 5)))
   = Inr (ArrowFunctionExpression
        [IdentifierPattern ''x'' (Slot (Some TSAnyKeyword) 1),
         RestElement (IdentifierPattern ''r'' (Slot None 0)) (Slot (Some TSAnyKeyword) 1)]
        (Slot (Some TSNumberKeyword) 1) (ExpressionBody (NumericLiteral 5)))"
    by (simp add: ArrowFunctionExpression_visitor_def)
  have v: "FunctionDeclaration_visitor [IdentifierPattern ''a'' (Slot (Some TSStringKeyword) 0)]
     (Slot (Some TSStringKeyword) 0) [ReturnStatement (Some (NumericLiteral 1))]
   = Inr ([IdentifierPattern ''a'' (Slot (Some TSAnyKeyword) 1)], Slot (Some TSStringKeyword) 0)"
    "ArrowFunctionExpression_visitor [IdentifierPattern ''x'' (Slot None 0)] (Slot None 0)
     (BlockBody [ReturnStatement (Some (NumericLiteral 1))])
   = Inr ([IdentifierPattern ''x'' (Slot (Some TSAnyKeyword) 1)], Slot (Some TSNumberKeyword) 1)"
    "ArrowFunctionExpression_visitor [IdentifierPattern ''x'' (Slot None 0)] (Slot None 0)
     (ExpressionBody (NumericLiteral 5))
   = Inr ([IdentifierPattern ''x'' (Slot (Some TSAnyKeyword) 1)], Slot (Some TSNumberKeyword) 1)"
    by (simp_all add: FunctionDeclaration_visitor_def ArrowFunctionExpression_visitor_def)
  note m1 = parameters_any [THEN conjunct1, THEN mp, OF f]
  note m2 = parameters_any [THEN conjunct2, THEN conjunct1, THEN mp, OF g]
  from m1 m2 f g v show ?thesis by simp
qed

text \<open>
  A second pass over the result of a first one, on \<^verbatim>\<open>function f(a) { return 1; }\<close>: the
  parameter is assigned again, the return type is not.
\<close>

lemma second_pass_example:
  "and_then
     (addTypeAnnotations
        [FunctionDeclaration ''f'' [IdentifierPattern ''a'' (Slot None 0)] (Slot None 0)
           [ReturnStatement (Some (NumericLiteral 1))]])
     addTypeAnnotations
   = Inr [FunctionDeclaration ''f'' [IdentifierPattern ''a'' (Slot (Some TSAnyKeyword) 2)]
           (Slot (Some TSNumberKeyword) 1) [ReturnStatement (Some (NumericLiteral 1))]]"
  by (simp add: addTypeAnnotations_def FunctionDeclaration_visitor_def)

section \<open>Properties of the pass\<close>

lemma slots_pattern_eq: "slots_pattern r p = (r, typeAnnotation p) # inner_slots p"
  by (cases p) (simp_all add: inner_slots_def)

lemma inner_slots_set_typeAnnotation [simp]:
  "inner_slots (set_typeAnnotation ty p) = inner_slots p"
  by (cases p) (simp_all add: inner_slots_def)

lemma inner_slots_simps [simp]:
  "inner_slots (IdentifierPattern name s) = []"
  "inner_slots (AssignmentPattern left right s) = slots_pattern Nested left @ slots_expression right"
  "inner_slots (RestElement argument s) = slots_pattern Nested argument"
  "inner_slots (ArrayPattern elements s) =
     concat (map (\<lambda>el. case el of None \<Rightarrow> [] | Some p \<Rightarrow> slots_pattern Nested p) elements)"
  by (simp_all add: inner_slots_def)

lemma list_all2_concat_map:
  "list_all2 (\<lambda>x y. list_all2 R (f x) (g y)) xs ys \<Longrightarrow>
   list_all2 R (concat (map f xs)) (concat (map g ys))"
  by (induction xs ys rule: list_all2_induct) (auto intro: list_all2_appendI)

lemma mapM_list_all2_member:
  "mapM f xs = Inr ys \<Longrightarrow> (\<And>x y. x \<in> set xs \<Longrightarrow> f x = Inr y \<Longrightarrow> Q x y) \<Longrightarrow> list_all2 Q xs ys"
  by (induction xs arbitrary: ys) auto

lemma mapM_slots:
  "mapM f xs = Inr ys \<Longrightarrow>
   (\<And>x y. x \<in> set xs \<Longrightarrow> f x = Inr y \<Longrightarrow> list_all2 R (g x) (g y)) \<Longrightarrow>
   list_all2 R (concat (map g xs)) (concat (map g ys))"
  by (rule list_all2_concat_map) (erule mapM_list_all2_member)

lemma mapM_option_slots:
  "mapM (mapM_option f) xs = Inr ys \<Longrightarrow>
   (\<And>x y. Some x \<in> set xs \<Longrightarrow> f x = Inr y \<Longrightarrow> list_all2 R (g x) (g y)) \<Longrightarrow>
   list_all2 R (concat (map (\<lambda>el. case el of None \<Rightarrow> [] | Some e \<Rightarrow> g e) xs))
               (concat (map (\<lambda>el. case el of None \<Rightarrow> [] | Some e \<Rightarrow> g e) ys))"
  apply (rule list_all2_concat_map)
  apply (erule mapM_list_all2_member)
  subgoal for x y by (cases x) auto
  done

lemma slot_step_pattern:
  "typeAnnotation p' = typeAnnotation p \<Longrightarrow> list_all2 slot_step (inner_slots p) (inner_slots p') \<Longrightarrow>
   list_all2 slot_step (slots_pattern Nested p) (slots_pattern Nested p')"
  by (simp add: slots_pattern_eq)

lemma mapM_option_slot:
  "mapM_option f x = Inr y \<Longrightarrow>
   (\<And>v w. x = Some v \<Longrightarrow> f v = Inr w \<Longrightarrow> list_all2 R (g v) (g w)) \<Longrightarrow>
   list_all2 R (case x of None \<Rightarrow> [] | Some v \<Rightarrow> g v) (case y of None \<Rightarrow> [] | Some v \<Rightarrow> g v)"
  by (cases x) auto

lemma slot_step_written_param:
  "k \<noteq> OfFunctionExpression \<Longrightarrow> slot_step (Parameter k, s) (r', s') = (r' = Parameter k \<and> written s s')"
  by (cases k) simp_all

lemma slot_step_return:
  "k \<noteq> OfFunctionExpression \<Longrightarrow>
   slot_step (ReturnType k, s) (r', s') =
     (r' = ReturnType k \<and> (if annotation s = None then written s s' else s' = s))"
  by (cases k) simp_all

lemma params_slots_unvisited:
  assumes "mapM traverse_pattern ps = Inr ps'"
    and "\<And>p p'. p \<in> set ps \<Longrightarrow> traverse_pattern p = Inr p' \<Longrightarrow>
      typeAnnotation p' = typeAnnotation p \<and> list_all2 slot_step (inner_slots p) (inner_slots p')"
  shows "list_all2 slot_step
     (concat (map (slots_pattern (Parameter OfFunctionExpression)) ps))
     (concat (map (slots_pattern (Parameter OfFunctionExpression)) ps'))"
  using assms(1)
proof (rule mapM_slots)
  fix p p'
  assume "p \<in> set ps" "traverse_pattern p = Inr p'"
  from assms(2) [OF this]
  show "list_all2 slot_step (slots_pattern (Parameter OfFunctionExpression) p)
     (slots_pattern (Parameter OfFunctionExpression) p')"
    by (simp add: slots_pattern_eq)
qed

lemma params_slots_visited:
  assumes k: "k \<noteq> OfFunctionExpression"
    and m: "mapM traverse_pattern (map (set_typeAnnotation TSAnyKeyword) ps) = Inr ps'"
    and ih: "\<And>p p'. p \<in> set (map (set_typeAnnotation TSAnyKeyword) ps) \<Longrightarrow>
      traverse_pattern p = Inr p' \<Longrightarrow>
      typeAnnotation p' = typeAnnotation p \<and> list_all2 slot_step (inner_slots p) (inner_slots p')"
  shows "list_all2 slot_step
     (concat (map (slots_pattern (Parameter k)) ps))
     (concat (map (slots_pattern (Parameter k)) ps'))"
proof (rule list_all2_concat_map)
  have "list_all2 (\<lambda>q p'. typeAnnotation p' = typeAnnotation q \<and>
           list_all2 slot_step (inner_slots q) (inner_slots p'))
         (map (set_typeAnnotation TSAnyKeyword) ps) ps'"
    using m ih by (rule mapM_list_all2_member)
  then have "list_all2 (\<lambda>p p'. typeAnnotation p' = assign TSAnyKeyword (typeAnnotation p) \<and>
           list_all2 slot_step (inner_slots p) (inner_slots p')) ps ps'"
    by (simp add: list_all2_map1 del: assign_eq)
  then show "list_all2 (\<lambda>p p'. list_all2 slot_step (slots_pattern (Parameter k) p)
      (slots_pattern (Parameter k) p')) ps ps'"
    by (rule list_all2_mono)
       (simp add: slots_pattern_eq slot_step_written_param [OF k] written_def)
qed

lemma traverse_slots:
  "traverse_expression e = Inr e' \<Longrightarrow>
     list_all2 slot_step (slots_expression e) (slots_expression e')"
  "traverse_property pr = Inr pr' \<Longrightarrow>
     list_all2 slot_step (slots_property pr) (slots_property pr')"
  "traverse_arrow_body b = Inr b' \<Longrightarrow>
     list_all2 slot_step (slots_arrow_body b) (slots_arrow_body b')"
  "traverse_pattern p = Inr p' \<Longrightarrow>
     typeAnnotation p' = typeAnnotation p \<and> list_all2 slot_step (inner_slots p) (inner_slots p')"
  "traverse_statement s = Inr s' \<Longrightarrow>
     list_all2 slot_step (slots_statement s) (slots_statement s')"
  "traverse_declarator d = Inr d' \<Longrightarrow>
     list_all2 slot_step (slots_declarator d) (slots_declarator d')"
proof (induction e and pr and b and p and s and d
    arbitrary: e' and pr' and b' and p' and s' and d'
    rule: traverse_expression_traverse_property_traverse_arrow_body_traverse_pattern_traverse_statement_traverse_declarator.induct)
  case (6 elements)
  then show ?case by (auto intro!: mapM_option_slots)
next
  case (7 callee arguments)
  then show ?case by (auto intro!: list_all2_appendI mapM_slots)
next
  case (8 properties)
  then show ?case by (auto intro!: mapM_slots)
next
  case (9 quasis expressions)
  then show ?case by (auto intro!: mapM_slots)
next
  case (10 operator left right)
  then show ?case by (auto intro!: list_all2_appendI)
next
  case (11 params returnType body)
  from "11.prems" obtain params' returnType' params'' body' where
    v: "ArrowFunctionExpression_visitor params returnType body = Inr (params', returnType')"
    and p: "mapM traverse_pattern params' = Inr params''"
    and b: "traverse_arrow_body body = Inr body'"
    and e': "e' = ArrowFunctionExpression params'' returnType' body'"
    by auto
  have ps: "params' = map (set_typeAnnotation TSAnyKeyword) params"
    using v by (rule ArrowFunctionExpression_visitor_params)
  have 1: "list_all2 slot_step (concat (map (slots_pattern (Parameter OfArrow)) params))
     (concat (map (slots_pattern (Parameter OfArrow)) params''))"
    using p "11.IH"(1) [OF v refl] unfolding ps by (intro params_slots_visited) auto
  have 2: "slot_step (ReturnType OfArrow, returnType) (ReturnType OfArrow, returnType')"
    using v by (auto simp: ArrowFunctionExpression_visitor_def Let_def written_def split: if_splits)
  have 3: "list_all2 slot_step (slots_arrow_body body) (slots_arrow_body body')"
    using "11.IH"(2) [OF v refl p b] .
  show ?case unfolding e' using 1 2 3 by (auto intro!: list_all2_appendI)
next
  case (12 name params returnType body)
  from "12.prems" obtain params' body' where
    p: "mapM traverse_pattern params = Inr params'"
    and b: "mapM traverse_statement body = Inr body'"
    and e': "e' = FunctionExpression name params' returnType body'"
    by auto
  have 1: "list_all2 slot_step (concat (map (slots_pattern (Parameter OfFunctionExpression)) params))
     (concat (map (slots_pattern (Parameter OfFunctionExpression)) params'))"
    using p "12.IH"(1) by (rule params_slots_unvisited)
  have 3: "list_all2 slot_step (concat (map slots_statement body)) (concat (map slots_statement body'))"
    using b "12.IH"(2) [OF p] by (rule mapM_slots)
  show ?case unfolding e' using 1 3 by (auto intro!: list_all2_appendI)
next
  case (15 statements)
  then show ?case by (auto intro!: mapM_slots)
next
  case (17 left right s)
  then show ?case by (auto intro!: list_all2_appendI slot_step_pattern)
next
  case (18 argument s)
  then show ?case by (auto intro!: slot_step_pattern)
next
  case (19 elements s)
  then show ?case by (auto intro!: mapM_option_slots slot_step_pattern)
next
  case (20 kind declarations)
  then show ?case by (auto intro!: mapM_slots)
next
  case (21 name params returnType body)
  from "21.prems" obtain params' returnType' params'' body' where
    v: "FunctionDeclaration_visitor params returnType body = Inr (params', returnType')"
    and p: "mapM traverse_pattern params' = Inr params''"
    and b: "mapM traverse_statement body = Inr body'"
    and s': "s' = FunctionDeclaration name params'' returnType' body'"
    by auto
  have ps: "params' = map (set_typeAnnotation TSAnyKeyword) params"
    using v by (rule FunctionDeclaration_visitor_params)
  have 1: "list_all2 slot_step (concat (map (slots_pattern (Parameter OfDeclaration)) params))
     (concat (map (slots_pattern (Parameter OfDeclaration)) params''))"
    using p "21.IH"(1) [OF v refl] unfolding ps by (intro params_slots_visited) auto
  have 2: "slot_step (ReturnType OfDeclaration, returnType) (ReturnType OfDeclaration, returnType')"
    using v by (auto simp: FunctionDeclaration_visitor_def Let_def written_def split: if_splits)
  have 3: "list_all2 slot_step (concat (map slots_statement body)) (concat (map slots_statement body'))"
    using b "21.IH"(2) [OF v refl p] by (rule mapM_slots)
  show ?case unfolding s' using 1 2 3 by (auto intro!: list_all2_appendI)
next
  case (22 argument)
  then show ?case by (auto intro!: mapM_option_slot)
next
  case (24 body)
  then show ?case by (auto intro!: mapM_slots)
next
  case (25 test consequent alternate)
  then show ?case by (auto intro!: list_all2_appendI mapM_option_slot)
next
  case (26 lhs init)
  from "26.prems" obtain lhs' lhs'' init' where
    v: "VariableDeclarator_visitor lhs init = Inr lhs'"
    and p: "traverse_pattern lhs' = Inr lhs''"
    and i: "mapM_option traverse_expression init = Inr init'"
    and d': "d' = VariableDeclarator lhs'' init'"
    by auto
  from v obtain ty where lhs': "lhs' = set_typeAnnotation ty lhs"
    by (auto simp: VariableDeclarator_visitor_Inr)
  have 1: "list_all2 slot_step (slots_pattern DeclaratorId lhs) (slots_pattern DeclaratorId lhs'')"
    using "26.IH"(1) [OF v p] by (simp add: slots_pattern_eq lhs' written_def)
  have 2: "list_all2 slot_step (case init of None \<Rightarrow> [] | Some e \<Rightarrow> slots_expression e)
     (case init' of None \<Rightarrow> [] | Some e \<Rightarrow> slots_expression e)"
    using i "26.IH"(2) [OF v p] by (rule mapM_option_slot)
  show ?case unfolding d' using 1 2 by (auto intro!: list_all2_appendI)
qed auto

lemma slot_step_visited:
  "slot_step x y \<Longrightarrow> visited (fst y) \<Longrightarrow> assignments (snd x) = 0 \<Longrightarrow>
   annotation (snd y) \<noteq> None \<and> assignments (snd y) \<le> 1"
  by (cases "(x, y)" rule: slot_step.cases) (auto simp: written_def split: if_splits)

lemma slot_step_unvisited:
  "slot_step x y \<Longrightarrow> visited (fst x) = visited (fst y) \<and> (\<not> visited (fst x) \<longrightarrow> y = x)"
  by (cases "(x, y)" rule: slot_step.cases) (auto split: if_splits)

lemma list_all2_slot_step_filter:
  "list_all2 slot_step xs ys \<Longrightarrow>
   filter (\<lambda>x. \<not> visited (fst x)) ys = filter (\<lambda>x. \<not> visited (fst x)) xs"
  by (induction xs ys rule: list_all2_induct) (auto dest: slot_step_unvisited)

lemma addTypeAnnotations_slots:
  "addTypeAnnotations ast = Inr ast' \<Longrightarrow>
   list_all2 slot_step (slots_program ast) (slots_program ast')"
  unfolding addTypeAnnotations_def slots_program_def
  by (erule mapM_slots) (rule traverse_slots(5))

text \<open>
  C7, as amended.  After a pass that completes on a tree whose assignment counters are
  all zero, the \<^verbatim>\<open>id\<close> of every declarator and every parameter and the return type of
  every function declaration and arrow function hold an annotation, and no such slot has
  been assigned more than once.
\<close>

theorem visited_slots_populated_once:
  assumes "addTypeAnnotations ast = Inr ast'"
    and "\<forall>x \<in> set (slots_program ast). assignments (snd x) = 0"
  shows "\<forall>y \<in> set (slots_program ast'). visited (fst y) \<longrightarrow>
           annotation (snd y) \<noteq> None \<and> assignments (snd y) \<le> 1"
proof
  fix y assume y: "y \<in> set (slots_program ast')"
  from addTypeAnnotations_slots [OF assms(1)]
  have la: "list_all2 slot_step (slots_program ast) (slots_program ast')" .
  from y obtain i where i: "i < length (slots_program ast')" "y = slots_program ast' ! i"
    by (auto simp: in_set_conv_nth)
  from la i have "slot_step (slots_program ast ! i) y" "i < length (slots_program ast)"
    by (auto simp: list_all2_conv_all_nth)
  moreover from this assms(2) have "assignments (snd (slots_program ast ! i)) = 0"
    by (metis nth_mem)
  ultimately show "visited (fst y) \<longrightarrow> annotation (snd y) \<noteq> None \<and> assignments (snd y) \<le> 1"
    by (auto dest: slot_step_visited)
qed

theorem visited_slots_populated_once_witness:
  "addTypeAnnotations declarations_example = Inr declarations_example_annotated \<and>
   list_all (\<lambda>x. assignments (snd x) = 0) (slots_program declarations_example) \<and>
   list_all (\<lambda>y. annotation (snd y) \<noteq> None \<and> assignments (snd y) \<le> 1)
     (filter (\<lambda>y. visited (fst y)) (slots_program declarations_example_annotated)) \<and>
   length (filter (\<lambda>y. visited (fst y)) (slots_program declarations_example_annotated)) = 5"
proof -
  have h: "addTypeAnnotations declarations_example = Inr declarations_example_annotated"
    by (simp add: declarations_example_def declarations_example_annotated_def
        addTypeAnnotations_def FunctionDeclaration_visitor_def ArrowFunctionExpression_visitor_def
        VariableDeclarator_visitor_def)
  have z: "\<forall>x \<in> set (slots_program declarations_example). assignments (snd x) = 0"
    by (simp add: declarations_example_def slots_program_def)
  have n: "length (filter (\<lambda>y. visited (fst y)) (slots_program declarations_example_annotated)) = 5"
    by (simp add: declarations_example_annotated_def slots_program_def)
  from visited_slots_populated_once [OF h z] h z n show ?thesis
    by (simp add: list_all_iff)
qed

text \<open>
  C7, as stated, fails for function expressions: on \<^verbatim>\<open>const f = function (a) { return 1; }\<close>
  the pass completes, and the parameter and the return type of the function expression
  are still empty.
\<close>

theorem function_expression_left_unannotated:
  "addTypeAnnotations function_expression_example =
     Inr [VariableDeclaration ''const''
        [VariableDeclarator (IdentifierPattern ''f'' (Slot (Some TSAnyKeyword) 1))
           (Some (FunctionExpression None [IdentifierPattern ''a'' (Slot None 0)] (Slot None 0)
              [ReturnStatement (Some (NumericLiteral 1))]))]] \<and>
   slots_program
     [VariableDeclaration ''const''
        [VariableDeclarator (IdentifierPattern ''f'' (Slot (Some TSAnyKeyword) 1))
           (Some (FunctionExpression None [IdentifierPattern ''a'' (Slot None 0)] (Slot None 0)
              [ReturnStatement (Some (NumericLiteral 1))]))]] =
     [(DeclaratorId, Slot (Some TSAnyKeyword) 1),
      (Parameter OfFunctionExpression, Slot None 0),
      (ReturnType OfFunctionExpression, Slot None 0)]"
  by (simp add: function_expression_example_def addTypeAnnotations_def slots_program_def
      VariableDeclarator_visitor_def)

text \<open>
  The pass changes annotation slots and nothing else.
\<close>

lemma erase_set_typeAnnotation [simp]: "erase_pattern (set_typeAnnotation ty p) = erase_pattern p"
  by (cases p) simp_all

lemma mapM_map_eq:
  "mapM f xs = Inr ys \<Longrightarrow> (\<And>x y. x \<in> set xs \<Longrightarrow> f x = Inr y \<Longrightarrow> g y = g x) \<Longrightarrow>
   map g ys = map g xs"
  by (induction xs arbitrary: ys) auto

lemma mapM_option_map_eq:
  "mapM_option f x = Inr y \<Longrightarrow> (\<And>v w. x = Some v \<Longrightarrow> f v = Inr w \<Longrightarrow> g w = g v) \<Longrightarrow>
   map_option g y = map_option g x"
  by (cases x) auto

lemma mapM_mapM_option_map_eq:
  "mapM (mapM_option f) xs = Inr ys \<Longrightarrow>
   (\<And>x y. Some x \<in> set xs \<Longrightarrow> f x = Inr y \<Longrightarrow> g y = g x) \<Longrightarrow>
   map (map_option g) ys = map (map_option g) xs"
  by (erule mapM_map_eq) (erule mapM_option_map_eq, simp)

lemma traverse_erase:
  "traverse_expression e = Inr e' \<Longrightarrow> erase_expression e' = erase_expression e"
  "traverse_property pr = Inr pr' \<Longrightarrow> erase_property pr' = erase_property pr"
  "traverse_arrow_body b = Inr b' \<Longrightarrow> erase_arrow_body b' = erase_arrow_body b"
  "traverse_pattern p = Inr p' \<Longrightarrow> erase_pattern p' = erase_pattern p"
  "traverse_statement s = Inr s' \<Longrightarrow> erase_statement s' = erase_statement s"
  "traverse_declarator d = Inr d' \<Longrightarrow> erase_declarator d' = erase_declarator d"
proof (induction e and pr and b and p and s and d
    arbitrary: e' and pr' and b' and p' and s' and d'
    rule: traverse_expression_traverse_property_traverse_arrow_body_traverse_pattern_traverse_statement_traverse_declarator.induct)
  case (6 elements)
  then show ?case by (auto intro!: mapM_mapM_option_map_eq)
next
  case (7 callee arguments)
  then show ?case by (auto intro!: mapM_map_eq)
next
  case (8 properties)
  then show ?case by (auto intro!: mapM_map_eq)
next
  case (9 quasis expressions)
  then show ?case by (auto intro!: mapM_map_eq)
next
  case (11 params returnType body)
  from "11.prems" obtain params' returnType' params'' body' where
    v: "ArrowFunctionExpression_visitor params returnType body = Inr (params', returnType')"
    and p: "mapM traverse_pattern params' = Inr params''"
    and b: "traverse_arrow_body body = Inr body'"
    and e': "e' = ArrowFunctionExpression params'' returnType' body'"
    by auto
  have ps: "params' = map (set_typeAnnotation TSAnyKeyword) params"
    using v by (rule ArrowFunctionExpression_visitor_params)
  have "map erase_pattern params'' = map erase_pattern params'"
    using p "11.IH"(1) [OF v refl] by (rule mapM_map_eq)
  then have 1: "map erase_pattern params'' = map erase_pattern params"
    by (simp add: ps)
  have 2: "erase_arrow_body body' = erase_arrow_body body"
    using "11.IH"(2) [OF v refl p b] .
  show ?case unfolding e' using 1 2 by simp
next
  case (12 name params returnType body)
  then show ?case by (auto intro!: mapM_map_eq)
next
  case (15 statements)
  then show ?case by (auto intro!: mapM_map_eq)
next
  case (19 elements s)
  then show ?case by (auto intro!: mapM_mapM_option_map_eq)
next
  case (20 kind declarations)
  then show ?case by (auto intro!: mapM_map_eq)
next
  case (21 name params returnType body)
  from "21.prems" obtain params' returnType' params'' body' where
    v: "FunctionDeclaration_visitor params returnType body = Inr (params', returnType')"
    and p: "mapM traverse_pattern params' = Inr params''"
    and b: "mapM traverse_statement body = Inr body'"
    and s': "s' = FunctionDeclaration name params'' returnType' body'"
    by auto
  have ps: "params' = map (set_typeAnnotation TSAnyKeyword) params"
    using v by (rule FunctionDeclaration_visitor_params)
  have "map erase_pattern params'' = map erase_pattern params'"
    using p "21.IH"(1) [OF v refl] by (rule mapM_map_eq)
  then have 1: "map erase_pattern params'' = map erase_pattern params"
    by (simp add: ps)
  have 2: "map erase_statement body' = map erase_statement body"
    using b "21.IH"(2) [OF v refl p] by (rule mapM_map_eq)
  show ?case unfolding s' using 1 2 by simp
next
  case (22 argument)
  then show ?case by (auto intro!: mapM_option_map_eq)
next
  case (24 body)
  then show ?case by (auto intro!: mapM_map_eq)
next
  case (25 test consequent alternate)
  then show ?case by (auto intro!: mapM_option_map_eq)
next
  case (26 lhs init)
  from "26.prems" obtain lhs' lhs'' init' where
    v: "VariableDeclarator_visitor lhs init = Inr lhs'"
    and p: "traverse_pattern lhs' = Inr lhs''"
    and i: "mapM_option traverse_expression init = Inr init'"
    and d': "d' = VariableDeclarator lhs'' init'"
    by auto
  from v obtain ty where lhs': "lhs' = set_typeAnnotation ty lhs"
    by (auto simp: VariableDeclarator_visitor_Inr)
  have 1: "erase_pattern lhs'' = erase_pattern lhs"
    using "26.IH"(1) [OF v p] by (simp add: lhs')
  have 2: "map_option erase_expression init' = map_option erase_expression init"
    using i "26.IH"(2) [OF v p] by (rule mapM_option_map_eq)
  show ?case unfolding d' using 1 2 by simp
qed auto

text \<open>
  C9.  Only declarators, function declarations and arrow functions have a visitor.  A
  pass that completes leaves the tree as it was up to annotation slots, and leaves every
  slot as it was that is not the \<^verbatim>\<open>id\<close> of a declarator or a parameter or the return
  type of a function declaration or arrow function.  In particular a function expression
  comes out of the traversal with the return type and the parameter slots it went in
  with; only the nodes below it are traversed.
\<close>

theorem only_declarators_and_two_function_kinds_written:
  "(addTypeAnnotations ast = Inr ast' \<longrightarrow>
      map erase_statement ast' = map erase_statement ast \<and>
      filter (\<lambda>x. \<not> visited (fst x)) (slots_program ast') =
        filter (\<lambda>x. \<not> visited (fst x)) (slots_program ast)) \<and>
   (traverse_expression (FunctionExpression name params returnType body) = Inr e' \<longrightarrow>
      (\<exists>params' body'. e' = FunctionExpression name params' returnType body' \<and>
         map typeAnnotation params' = map typeAnnotation params))"
proof (intro conjI impI)
  assume a: "addTypeAnnotations ast = Inr ast'"
  then show "map erase_statement ast' = map erase_statement ast"
    unfolding addTypeAnnotations_def by (rule mapM_map_eq) (rule traverse_erase(5))
  from addTypeAnnotations_slots [OF a]
  show "filter (\<lambda>x. \<not> visited (fst x)) (slots_program ast') =
        filter (\<lambda>x. \<not> visited (fst x)) (slots_program ast)"
    by (rule list_all2_slot_step_filter)
next
  assume "traverse_expression (FunctionExpression name params returnType body) = Inr e'"
  then show "\<exists>params' body'. e' = FunctionExpression name params' returnType body' \<and>
         map typeAnnotation params' = map typeAnnotation params"
    by (auto dest: traverse_params_typeAnnotation)
qed

theorem only_declarators_and_two_function_kinds_written_witness:
  "addTypeAnnotations function_expression_example =
     Inr [VariableDeclaration ''const''
        [VariableDeclarator (IdentifierPattern ''f'' (Slot (Some TSAnyKeyword) 1))
           (Some (FunctionExpression None [IdentifierPattern ''a'' (Slot None 0)] (Slot None 0)
              [ReturnStatement (Some (NumericLiteral 1))]))]] \<and>
   filter (\<lambda>x. \<not> visited (fst x)) (slots_program function_expression_example) =
     [(Parameter OfFunctionExpression, Slot None 0), (ReturnType OfFunctionExpression, Slot None 0)] \<and>
   filter (\<lambda>x. \<not> visited (fst x)) (slots_program
     [VariableDeclaration ''const''
        [VariableDeclarator (IdentifierPattern ''f'' (Slot (Some TSAnyKeyword) 1))
           (Some (FunctionExpression None [IdentifierPattern ''a'' (Slot None 0)] (Slot None 0)
              [ReturnStatement (Some (NumericLiteral 1))]))]]) =
     [(Parameter OfFunctionExpression, Slot None 0), (ReturnType OfFunctionExpression, Slot None 0)] \<and>
   traverse_expression
     (FunctionExpression None [IdentifierPattern ''a'' (Slot None 0)] (Slot None 0)
        [ReturnStatement (Some (NumericLiteral 1))])
   = Inr (FunctionExpression None [IdentifierPattern ''a'' (Slot None 0)] (Slot None 0)
        [ReturnStatement (Some (NumericLiteral 1))])"
proof -
  have h: "addTypeAnnotations function_expression_example =
     Inr [VariableDeclaration ''const''
        [VariableDeclarator (IdentifierPattern ''f'' (Slot (Some TSAnyKeyword) 1))
           (Some (FunctionExpression None [IdentifierPattern ''a'' (Slot None 0)] (Slot None 0)
              [ReturnStatement (Some (NumericLiteral 1))]))]]"
    by (simp add: function_expression_example_def addTypeAnnotations_def
        VariableDeclarator_visitor_def)
  have t: "traverse_expression
     (FunctionExpression None [IdentifierPattern ''a'' (Slot None 0)] (Slot None 0)
        [ReturnStatement (Some (NumericLiteral 1))])
   = Inr (FunctionExpression None [IdentifierPattern ''a'' (Slot None 0)] (Slot None 0)
        [ReturnStatement (Some (NumericLiteral 1))])"
    by simp
  have s: "filter (\<lambda>x. \<not> visited (fst x)) (slots_program function_expression_example) =
     [(Parameter OfFunctionExpression, Slot None 0), (ReturnType OfFunctionExpression, Slot None 0)]"
    by (simp add: function_expression_example_def slots_program_def)
  from only_declarators_and_two_function_kinds_written
    [where ast = function_expression_example and name = None
       and params = "[IdentifierPattern ''a'' (Slot None 0)]" and returnType = "Slot None 0"
       and body = "[ReturnStatement (Some (NumericLiteral 1))]"] h t s
  show ?thesis by simp
qed

section \<open>Properties of the directory pass\<close>

text \<open>The path functions on the paths the examples use.\<close>

lemma path_join_examples:
  "path_join ''src'' ''a.js'' = ''src/a.js''"
  "path_join ''src/'' ''a.js'' = ''src/a.js''"
  "path_join ''./src'' ''a.js'' = ''src/a.js''"
  "path_join ''.'' ''a.js'' = ''a.js''"
  "path_join [] ''a.js'' = ''a.js''"
  "path_join ''/'' ''a.js'' = ''/a.js''"
  "path_join ''..'' ''a.js'' = ''../a.js''"
  "path_join ''lib/../src'' ''a.js'' = ''src/a.js''"
  by code_simp+

lemma dirname_examples:
  "dirname ''a.js'' = ''.''"
  "dirname ''/a.js'' = ''/''"
  "dirname ''src/a.js'' = ''src''"
  "dirname ''proj.ts/a.js'' = ''proj.ts''"
  "dirname ''src/lib/'' = ''src''"
  "dirname [] = ''.''"
  by code_simp+

text \<open>
  A listing is sorted and does not descend; a directory path may be given with a
  trailing separator.
\<close>

lemma readdirSync_examples:
  "readdirSync example_files ''src'' = Inr [''a.js'', ''a.ts'', ''lib'', ''notes.txt'']"
  "readdirSync example_files ''src/'' = Inr [''a.js'', ''a.ts'', ''lib'', ''notes.txt'']"
  "readdirSync example_files ''.'' = Inr [''bad'', ''proj.js'', ''src'', ''top.js'']"
  "readdirSync example_files ''src/a.js'' = Inl ENOTDIR"
  "readdirSync example_files ''missing'' = Inl ENOENT"
  by code_simp+

text \<open>
  The pass on \<^verbatim>\<open>src\<close> converts \<^verbatim>\<open>a.js\<close> and nothing else, and replaces the text of the stale
  \<^verbatim>\<open>a.ts\<close>; on the working directory it converts \<^verbatim>\<open>top.js\<close> and skips the directory
  \<^verbatim>\<open>proj.js\<close>; on \<^verbatim>\<open>bad\<close> it raises at the file that does not parse, after it has
  converted the first.
\<close>

lemma directory_pass_examples:
  "transformJsFilesInDir example_parse example_generate ''src''
     \<lparr>files = example_files, console = []\<rparr> =
   Inr \<lparr>files = write_entry ''src/a.ts'' (RegularFile ''let y: any;'') example_files,
        console = [(''src/a.js'', ''src/a.ts'')]\<rparr>"
  "transformJsFilesInDir example_parse example_generate ''src/''
     \<lparr>files = example_files, console = []\<rparr> =
   Inr \<lparr>files = write_entry ''src/a.ts'' (RegularFile ''let y: any;'') example_files,
        console = [(''src/a.js'', ''src/a.ts'')]\<rparr>"
  "transformJsFilesInDir example_parse example_generate ''.''
     \<lparr>files = example_files, console = []\<rparr> =
   Inr \<lparr>files = example_files @ [(''top.ts'', RegularFile ''let y: any;'')],
        console = [(''top.js'', ''top.ts'')]\<rparr>"
  "transformJsFilesInDir example_parse example_generate ''bad''
     \<lparr>files = example_files, console = []\<rparr> = Inl SyntaxError"
  "map_of example_files ''src/a.ts'' = Some (RegularFile ''old'')"
  "map_of (write_entry ''src/a.ts'' (RegularFile ''let y: any;'') example_files) ''src/a.ts'' =
     Some (RegularFile ''let y: any;'')"
  by code_simp+

text \<open>
  C8.  The claim has every output written beside its input.  For the file \<^verbatim>\<open>a.js\<close> in a
  directory named \<^verbatim>\<open>proj.js\<close> the first \<^verbatim>\<open>.js\<close> of the path is in the directory name:
  \<^verbatim>\<open>tsFilePath\<close> is \<^verbatim>\<open>proj.ts/a.js\<close>, which is in another directory and does not end in
  \<^verbatim>\<open>.ts\<close>.  Where a directory \<^verbatim>\<open>proj.ts\<close> exists the text is written there; where none
  exists the write raises \<^verbatim>\<open>ENOENT\<close>.
\<close>

theorem directory_pass_js_in_directory_name:
  "transformJsFilesInDir example_parse example_generate ''proj.js''
     \<lparr>files = example_files_with_proj_ts, console = []\<rparr> =
   Inr \<lparr>files = example_files_with_proj_ts @ [(''proj.ts/a.js'', RegularFile ''let y: any;'')],
        console = [(''proj.js/a.js'', ''proj.ts/a.js'')]\<rparr> \<and>
   transformJsFilesInDir example_parse example_generate ''proj.js''
     \<lparr>files = example_files, console = []\<rparr> = Inl ENOENT \<and>
   path_join ''proj.js'' ''a.js'' = ''proj.js/a.js'' \<and>
   replace ''proj.js/a.js'' ''.js'' ''.ts'' = ''proj.ts/a.js'' \<and>
   dirname ''proj.js/a.js'' = ''proj.js'' \<and>
   dirname ''proj.ts/a.js'' = ''proj.ts'' \<and>
   endsWith ''proj.ts/a.js'' ''.ts'' = False"
  by code_simp

end
